theory Spec2Isabelle
  imports Main "HOL-Library.Word" "HOL-Library.Sublist"
begin

section \<open>JavaScript strings and numbers rendered as text\<close>

text \<open>
  A JavaScript string is a sequence of 16-bit code units. Literals of the source that are
  plain ASCII are written with \<open>lit\<close>; the few non-ASCII ones are spelled out as code
  units where they occur.
\<close>

type_synonym jsstring = "16 word list"

definition lit :: "string \<Rightarrow> jsstring" where
  "lit s = map (\<lambda>c. of_nat (of_char c :: nat)) s"

definition digitChar :: "nat \<Rightarrow> 16 word" where
  "digitChar d = of_nat (48 + d)"

text \<open>The decimal numeral of a natural number, as \<open>String(n)\<close> writes it.\<close>

fun digitsOf :: "nat \<Rightarrow> jsstring" where
  "digitsOf n = (if n < 10 then [digitChar n] else digitsOf (n div 10) @ [digitChar (n mod 10)])"

declare digitsOf.simps [simp del]

text \<open>\<open>String(i)\<close> and \<open>`${i}`\<close> for an integral number \<open>i\<close>.\<close>

definition showInt :: "int \<Rightarrow> jsstring" where
  "showInt i = (if i < 0 then 0x2D # digitsOf (nat (- i)) else digitsOf (nat i))"

text \<open>\<open>s.slice(-2)\<close>: the last two code units, or all of \<open>s\<close> when it is shorter.\<close>

definition sliceLast2 :: "jsstring \<Rightarrow> jsstring" where
  "sliceLast2 s = drop (length s - 2) s"

text \<open>\<open>s.padStart(n, c)\<close> for a one-unit filler \<open>c\<close>.\<close>

definition padStart :: "nat \<Rightarrow> 16 word \<Rightarrow> jsstring \<Rightarrow> jsstring" where
  "padStart n c s = replicate (n - length s) c @ s"

definition isDigit :: "16 word \<Rightarrow> bool" where
  "isDigit c = (0x30 \<le> c \<and> c \<le> 0x39)"

text \<open>\<open>Number(code)\<close> for a run of decimal digits, as an exact natural number.\<close>

definition numberOf :: "jsstring \<Rightarrow> nat" where
  "numberOf ds = foldl (\<lambda>n c. 10 * n + (unat c - 48)) 0 ds"

text \<open>
  White space and line terminators, the units matched by \<open>\s\<close> and removed by
  \<open>trim()\<close>.
\<close>

definition isSpace :: "16 word \<Rightarrow> bool" where
  "isSpace c =
     (c = 0x09 \<or> c = 0x0A \<or> c = 0x0B \<or> c = 0x0C \<or> c = 0x0D \<or> c = 0x20 \<or> c = 0xA0 \<or>
      c = 0x1680 \<or> (0x2000 \<le> c \<and> c \<le> 0x200A) \<or> c = 0x2028 \<or> c = 0x2029 \<or>
      c = 0x202F \<or> c = 0x205F \<or> c = 0x3000 \<or> c = 0xFEFF)"

definition trim :: "jsstring \<Rightarrow> jsstring" where
  "trim s = rev (dropWhile isSpace (rev (dropWhile isSpace s)))"

text \<open>\<open>s.replace(/\s+/g, " ")\<close>: every run of white space becomes one space.\<close>

function collapseSpaces :: "jsstring \<Rightarrow> jsstring" where
  "collapseSpaces [] = []"
| "collapseSpaces (c # cs) =
     (if isSpace c then 0x20 # collapseSpaces (dropWhile isSpace cs)
      else c # collapseSpaces cs)"
  by pat_completeness auto
termination
  by (relation "measure length") (auto simp: length_dropWhile_le less_Suc_eq_le)

lemma length_drop_dropWhile_le: "length (drop n (dropWhile P xs)) \<le> length xs"
  using length_dropWhile_le [of P xs] by simp

text \<open>
  \<open>s.replace(/<[^>]*>/g, " ")\<close>: scanning from the left, a \<open><\<close> that has a
  \<open>>\<close> somewhere after it is replaced, together with everything up to the first such
  \<open>>\<close>, by one space.
\<close>

function removeTags :: "jsstring \<Rightarrow> jsstring" where
  "removeTags [] = []"
| "removeTags (c # cs) =
     (if c = 0x3C \<and> 0x3E \<in> set cs
      then 0x20 # removeTags (drop 1 (dropWhile (\<lambda>x. x \<noteq> 0x3E) cs))
      else c # removeTags cs)"
  by pat_completeness auto
termination
  by (relation "measure length")
     (auto simp del: length_drop intro: le_imp_less_Suc length_drop_dropWhile_le)

text \<open>
  \<open>s.split(pat).join(rep)\<close> for a non-empty \<open>pat\<close>: the occurrences of \<open>pat\<close>,
  found from the left without overlap, are replaced by \<open>rep\<close>; the replacement is not
  scanned again.
\<close>

function replaceAll :: "jsstring \<Rightarrow> jsstring \<Rightarrow> jsstring \<Rightarrow> jsstring" where
  "replaceAll pat rep [] = []"
| "replaceAll pat rep (c # cs) =
     (if pat \<noteq> [] \<and> take (length pat) (c # cs) = pat
      then rep @ replaceAll pat rep (drop (length pat) (c # cs))
      else c # replaceAll pat rep cs)"
  by pat_completeness auto
termination
  by (relation "measure (\<lambda>(pat, rep, s). length s)") auto

section \<open>Values and errors\<close>

text \<open>
  A number of a JSON document, held by the digits of its shortest decimal form, which is
  what \<open>Number.prototype.toString\<close> is defined on: \<open>NumFinite neg s n\<close> is the number
  \<open>s \<times> 10\<^sup>n\<^sup>-\<^sup>k\<close> (negated when \<open>neg\<close>), \<open>k\<close> being the number of digits of
  \<open>s\<close>; zero has \<open>s = 0\<close>. A literal too large for a double is an infinity.
\<close>

datatype jsnum = NumFinite bool nat int | NumInfinite bool

datatype json =
    JNull
  | JBool bool
  | JNum jsnum
  | JStr jsstring
  | JArr "json list"
  | JObj "(jsstring \<times> json) list"

text \<open>
  A JavaScript value of this program is a JSON value or \<open>undefined\<close> (\<open>None\<close>).
  An object holds its own properties, with distinct keys, in enumeration order.
\<close>

type_synonym jsval = "json option"

text \<open>
  The errors the program can raise or receive: its own \<open>new Error(msg)\<close>; the
  \<open>TypeError\<close> of reading a property of \<open>null\<close>; the \<open>RangeError\<close> of
  \<open>String.fromCodePoint\<close> and of \<open>toISOString\<close> on an invalid date; and a failure of the platform (\<open>fetch\<close>,
  \<open>res.json()\<close>, \<open>new URL\<close>) with the message it carries.
\<close>

datatype error =
    Error jsstring
  | NullPropertyRead jsstring
  | InvalidCodePoint nat
  | InvalidTimeValue
  | Rejected jsstring

definition bindE :: "error + 'a \<Rightarrow> ('a \<Rightarrow> error + 'b) \<Rightarrow> error + 'b" where
  "bindE m f = (case m of Inl e \<Rightarrow> Inl e | Inr x \<Rightarrow> f x)"

definition truthy :: "jsval \<Rightarrow> bool" where
  "truthy v =
     (case v of
        None \<Rightarrow> False
      | Some JNull \<Rightarrow> False
      | Some (JBool b) \<Rightarrow> b
      | Some (JNum (NumFinite neg s n)) \<Rightarrow> s \<noteq> 0
      | Some (JNum (NumInfinite neg)) \<Rightarrow> True
      | Some (JStr s) \<Rightarrow> s \<noteq> []
      | Some (JArr xs) \<Rightarrow> True
      | Some (JObj kvs) \<Rightarrow> True)"

text \<open>
  \<open>v[k]\<close> and \<open>v.k\<close> for the property names this program reads, none of which
  is an index, \<open>length\<close> or a name that a prototype defines: reading from \<open>null\<close>
  raises, an object gives its own property or \<open>undefined\<close>, every other value gives
  \<open>undefined\<close>.
\<close>

definition getProp :: "json \<Rightarrow> jsstring \<Rightarrow> error + jsval" where
  "getProp v k =
     (case v of
        JNull \<Rightarrow> Inl (NullPropertyRead k)
      | JObj kvs \<Rightarrow> Inr (map_of kvs k)
      | _ \<Rightarrow> Inr None)"

section \<open>Row filter and formatter: markup and entities\<close>

text \<open>
  \<open>String.fromCodePoint(n)\<close>: one code unit below \<open>0x10000\<close>, a surrogate pair up
  to \<open>0x10FFFF\<close>, a \<open>RangeError\<close> beyond.
\<close>

definition fromCodePoint :: "nat \<Rightarrow> error + jsstring" where
  "fromCodePoint n =
     (if n > 0x10FFFF then Inl (InvalidCodePoint n)
      else if n < 0x10000 then Inr [of_nat n]
      else Inr [of_nat (0xD800 + (n - 0x10000) div 0x400),
                of_nat (0xDC00 + (n - 0x10000) mod 0x400)])"

text \<open>
  A match of \<open>/&#(\d+);/\<close> at the start of the text: the digits captured and the text
  after the match.
\<close>

definition matchNumericRef :: "jsstring \<Rightarrow> (jsstring \<times> jsstring) option" where
  "matchNumericRef s =
     (case s of
        a # h # t \<Rightarrow>
          (if a = 0x26 \<and> h = 0x23 \<and> takeWhile isDigit t \<noteq> [] \<and>
              take 1 (dropWhile isDigit t) = [0x3B]
           then Some (takeWhile isDigit t, drop 1 (dropWhile isDigit t))
           else None)
      | _ \<Rightarrow> None)"

lemma matchNumericRef_shorter [termination_simp]:
  "matchNumericRef s = Some (ds, r) \<Longrightarrow> length r < length s"
  by (auto simp: matchNumericRef_def simp del: length_drop
           split: list.splits if_splits
           intro!: le_imp_less_Suc le_SucI length_drop_dropWhile_le)

text \<open>
  \<open>s.replace(/&#(\d+);/g, (_, code) => f(code))\<close>: the callback is called on each match
  from the left, and an exception it throws ends the replacement.
\<close>

function replaceNumericRefs :: "(jsstring \<Rightarrow> error + jsstring) \<Rightarrow> jsstring \<Rightarrow> error + jsstring" where
  "replaceNumericRefs f [] = Inr []"
| "replaceNumericRefs f (c # cs) =
     (case matchNumericRef (c # cs) of
        Some (ds, r) \<Rightarrow>
          (case f ds of
             Inl e \<Rightarrow> Inl e
           | Inr x \<Rightarrow> (case replaceNumericRefs f r of Inl e \<Rightarrow> Inl e | Inr y \<Rightarrow> Inr (x @ y)))
      | None \<Rightarrow> (case replaceNumericRefs f cs of Inl e \<Rightarrow> Inl e | Inr y \<Rightarrow> Inr (c # y)))"
  by pat_completeness auto
termination
  by (relation "measure (\<lambda>(f, s). length s)") (auto dest: matchNumericRef_shorter)

text \<open>The named entities, in the order \<open>Object.entries(namedMap)\<close> visits them.\<close>

definition namedMap :: "(jsstring \<times> jsstring) list" where
  "namedMap =
     [(lit ''&nbsp;'', lit '' ''),
      (lit ''&amp;'', lit ''&''),
      (lit ''&lt;'', lit ''<''),
      (lit ''&gt;'', lit ''>''),
      (lit ''&quot;'', [0x22]),
      (lit ''&#39;'', [0x27])]"

text \<open>\<open>x || ""\<close> for a string \<open>x\<close>.\<close>

definition orEmpty :: "jsstring \<Rightarrow> jsstring" where
  "orEmpty x = (if x \<noteq> [] then x else [])"

text \<open>\<open>decodeHtmlEntities\<close> of \<open>gmp.js\<close>.\<close>

definition decodeHtmlEntities :: "jsval \<Rightarrow> error + jsstring" where
  "decodeHtmlEntities text =
     (case text of
        Some (JStr s) \<Rightarrow>
          bindE (replaceNumericRefs
                   (\<lambda>code. bindE (fromCodePoint (numberOf code)) (\<lambda>x. Inr (orEmpty x))) s)
            (\<lambda>decoded. Inr (foldl (\<lambda>d (entity, ch). replaceAll entity ch d) decoded namedMap))
      | _ \<Rightarrow> Inr [])"

text \<open>
  \<open>decodeHtmlEntities\<close> of the request handler, which passes the result of
  \<open>String.fromCodePoint\<close> on as it is.
\<close>

definition h_decodeHtmlEntities :: "jsval \<Rightarrow> error + jsstring" where
  "h_decodeHtmlEntities text =
     (case text of
        Some (JStr s) \<Rightarrow>
          bindE (replaceNumericRefs (\<lambda>code. fromCodePoint (numberOf code)) s)
            (\<lambda>decoded. Inr (foldl (\<lambda>d (entity, ch). replaceAll entity ch d) decoded namedMap))
      | _ \<Rightarrow> Inr [])"

definition stripHtml :: "jsval \<Rightarrow> error + jsstring" where
  "stripHtml text =
     (case text of
        Some (JStr s) \<Rightarrow>
          (let withoutTags = removeTags s
           in bindE (decodeHtmlEntities (Some (JStr withoutTags)))
                (\<lambda>d. Inr (trim (collapseSpaces d))))
      | _ \<Rightarrow> Inr [])"

section \<open>The clock\<close>

text \<open>
  What the accessors of a \<open>Date\<close> object return in the local time zone.
  \<open>getMonth\<close> counts from 0 (January) to 11 (December).
\<close>

record date =
  getFullYear :: int
  getMonth :: nat
  getDate :: nat
  getHours :: nat
  getMinutes :: nat

section \<open>URL builder\<close>

definition getFiscalYearLabel :: "date \<Rightarrow> jsstring" where
  "getFiscalYearLabel d =
     (let month = int (getMonth d) + 1;
          year = getFullYear d;
          fyStart = (if month \<ge> 4 then year else year - 1);
          fyEnd = fyStart + 1
      in showInt fyStart @ lit ''-'' @ sliceLast2 (showInt fyEnd))"

definition buildCacheBuster :: "date \<Rightarrow> jsstring" where
  "buildCacheBuster d =
     (let day = padStart 2 0x30 (showInt (int (getDate d)));
          hours = padStart 2 0x30 (showInt (int (getHours d)));
          minutes = padStart 2 0x30 (showInt (int (getMinutes d)))
      in day @ lit ''-'' @ hours @ minutes)"

text \<open>
  The last two decimal digits of a number, in the words of the specification: the tens
  digit and the units digit.
\<close>

definition lastTwoDigits :: "int \<Rightarrow> jsstring" where
  "lastTwoDigits n = [digitChar (nat (n div 10 mod 10)), digitChar (nat (n mod 10))]"

section \<open>Row filter and formatter: dates\<close>

text \<open>
  What a run takes from its platform: the clock (\<open>new Date()\<close> in local time, the
  current date in Asia/Kolkata as \<open>Intl.DateTimeFormat("en-CA", ...)\<close> writes it, and
  \<open>new Date().toISOString()\<close>), the generic date parser behind \<open>new Date(string)\<close>
  (\<open>None\<close> is an invalid date), the URL parser and serialiser behind \<open>new URL\<close>
  with \<open>searchParams.set\<close>, the wording of the engine's own errors, and the network.
  A response is its status and what \<open>res.json()\<close> gives. The clock is read once per run.
\<close>

record response =
  res_status :: nat
  res_json :: "error + json"

record env =
  now :: date
  todayKolkata :: jsstring
  nowISO :: jsstring
  dateParse :: "jsstring \<Rightarrow> int option"
  newURL :: "jsstring \<Rightarrow> (jsstring \<times> jsstring) list \<Rightarrow> error + jsstring"
  engineMessage :: "error \<Rightarrow> jsstring"
  httpGet :: "jsstring \<Rightarrow> error + response"
  httpPost :: "nat \<Rightarrow> jsstring \<Rightarrow> jsstring \<Rightarrow> error + response"

definition getTodayIso :: "env \<Rightarrow> jsstring" where
  "getTodayIso E = todayKolkata E"

text \<open>A field of fixed width \<open>k\<close>: the last \<open>k\<close> decimal digits, zero-filled.\<close>

fun fixedDigits :: "nat \<Rightarrow> nat \<Rightarrow> jsstring" where
  "fixedDigits 0 n = []"
| "fixedDigits (Suc k) n = fixedDigits k (n div 10) @ [digitChar (n mod 10)]"

text \<open>
  The calendar date of a day number counted from 1970-01-01, in the proleptic Gregorian
  calendar: the days are counted in eras of 400 years that start on a 1 March, and the
  months of a year from March.
\<close>

definition dayOfEra :: "int \<Rightarrow> int" where
  "dayOfEra z = (z + 719468) mod 146097"

definition yearOfEra :: "int \<Rightarrow> int" where
  "yearOfEra z =
     (dayOfEra z - dayOfEra z div 1460 + dayOfEra z div 36524 - dayOfEra z div 146096) div 365"

definition dayOfYear :: "int \<Rightarrow> int" where
  "dayOfYear z = dayOfEra z - (365 * yearOfEra z + yearOfEra z div 4 - yearOfEra z div 100)"

definition monthFromMarch :: "int \<Rightarrow> int" where
  "monthFromMarch z = (5 * dayOfYear z + 2) div 153"

definition dayOfMonth :: "int \<Rightarrow> int" where
  "dayOfMonth z = dayOfYear z - (153 * monthFromMarch z + 2) div 5 + 1"

definition monthOfYear :: "int \<Rightarrow> int" where
  "monthOfYear z = (if monthFromMarch z < 10 then monthFromMarch z + 3 else monthFromMarch z - 9)"

definition yearOfDay :: "int \<Rightarrow> int" where
  "yearOfDay z =
     yearOfEra z + ((z + 719468) div 146097) * 400 + (if monthOfYear z \<le> 2 then 1 else 0)"

text \<open>The UTC calendar fields of a time value in milliseconds.\<close>

definition utcYear :: "int \<Rightarrow> int" where
  "utcYear t = yearOfDay (t div 86400000)"

definition utcMonth :: "int \<Rightarrow> int" where
  "utcMonth t = monthOfYear (t div 86400000)"

definition utcDate :: "int \<Rightarrow> int" where
  "utcDate t = dayOfMonth (t div 86400000)"

definition msOfDay :: "int \<Rightarrow> nat" where
  "msOfDay t = nat (t mod 86400000)"

text \<open>
  \<open>Date.prototype.toISOString\<close> on a time value in milliseconds (\<open>None\<close> is the
  invalid date, on which it raises): four digits for the years 0 to 9999, a sign and six
  digits otherwise.
\<close>

definition isoYear :: "int \<Rightarrow> jsstring" where
  "isoYear y =
     (if 0 \<le> y \<and> y \<le> 9999 then fixedDigits 4 (nat y)
      else (if y < 0 then lit ''-'' else lit ''+'') @ fixedDigits 6 (nat \<bar>y\<bar>))"

definition toISOString :: "int option \<Rightarrow> error + jsstring" where
  "toISOString tv =
     (case tv of
        None \<Rightarrow> Inl InvalidTimeValue
      | Some t \<Rightarrow>
          Inr (isoYear (utcYear t) @ lit ''-'' @ fixedDigits 2 (nat (utcMonth t)) @ lit ''-'' @
               fixedDigits 2 (nat (utcDate t)) @ lit ''T'' @
               fixedDigits 2 (msOfDay t div 3600000) @ lit '':'' @
               fixedDigits 2 (msOfDay t div 60000 mod 60) @ lit '':'' @
               fixedDigits 2 (msOfDay t div 1000 mod 60) @ lit ''.'' @
               fixedDigits 3 (msOfDay t mod 1000) @ lit ''Z''))"

definition MONTH_SHORT :: "(jsstring \<times> jsstring) list" where
  "MONTH_SHORT =
     [(lit ''jan'', lit ''01''), (lit ''feb'', lit ''02''), (lit ''mar'', lit ''03''),
      (lit ''apr'', lit ''04''), (lit ''may'', lit ''05''), (lit ''jun'', lit ''06''),
      (lit ''jul'', lit ''07''), (lit ''aug'', lit ''08''), (lit ''sep'', lit ''09''),
      (lit ''oct'', lit ''10''), (lit ''nov'', lit ''11''), (lit ''dec'', lit ''12'')]"

definition isAlpha :: "16 word \<Rightarrow> bool" where
  "isAlpha c = ((0x41 \<le> c \<and> c \<le> 0x5A) \<or> (0x61 \<le> c \<and> c \<le> 0x7A))"

definition toLowerCase :: "jsstring \<Rightarrow> jsstring" where
  "toLowerCase s = map (\<lambda>c. if 0x41 \<le> c \<and> c \<le> 0x5A then c + 0x20 else c) s"

text \<open>\<open>/^\d{4}-\d{2}-\d{2}$/.test(s)\<close>: the form \<open>YYYY-MM-DD\<close>.\<close>

definition isIsoDateForm :: "jsstring \<Rightarrow> bool" where
  "isIsoDateForm s =
     (case s of
        [y1, y2, y3, y4, h1, m1, m2, h2, d1, d2] \<Rightarrow>
          isDigit y1 \<and> isDigit y2 \<and> isDigit y3 \<and> isDigit y4 \<and> h1 = 0x2D \<and>
          isDigit m1 \<and> isDigit m2 \<and> h2 = 0x2D \<and> isDigit d1 \<and> isDigit d2
      | _ \<Rightarrow> False)"

text \<open>
  \<open>s.match(/^(\d{1,2})-([A-Za-z]{3})$/)\<close>: the two captures, or \<open>None\<close> for no
  match.
\<close>

definition matchShort :: "jsstring \<Rightarrow> (jsstring \<times> jsstring) option" where
  "matchShort s =
     (case s of
        [d1, h, a, b, c] \<Rightarrow>
          (if isDigit d1 \<and> h = 0x2D \<and> isAlpha a \<and> isAlpha b \<and> isAlpha c
           then Some ([d1], [a, b, c]) else None)
      | [d1, d2, h, a, b, c] \<Rightarrow>
          (if isDigit d1 \<and> isDigit d2 \<and> h = 0x2D \<and> isAlpha a \<and> isAlpha b \<and> isAlpha c
           then Some ([d1, d2], [a, b, c]) else None)
      | _ \<Rightarrow> None)"

text \<open>
  The last three statements of \<open>normalizeDate\<close>: \<open>new Date(trimmed)\<close>, the test
  for an invalid date, and the first ten units of its ISO rendering.
\<close>

definition genericDate :: "env \<Rightarrow> jsstring \<Rightarrow> error + jsstring option" where
  "genericDate E trimmed =
     (let parsed = dateParse E trimmed
      in if parsed = None then Inr None
         else bindE (toISOString parsed) (\<lambda>iso. Inr (Some (take 10 iso))))"

text \<open>\<open>normalizeDate\<close>; \<open>None\<close> in the result is \<open>null\<close>.\<close>

definition normalizeDate :: "env \<Rightarrow> jsval \<Rightarrow> error + jsstring option" where
  "normalizeDate E v =
     (case v of
        Some (JStr s) \<Rightarrow>
          (if s = [] then Inr None
           else
             (let trimmed = trim s
              in if trimmed = [] then Inr None
                 else if isIsoDateForm trimmed then Inr (Some trimmed)
                 else
                   (case matchShort trimmed of
                      Some (dd, mon) \<Rightarrow>
                        (let day = padStart 2 0x30 dd;
                             month =
                               (case map_of MONTH_SHORT (toLowerCase mon) of
                                  Some m \<Rightarrow> Some m
                                | None \<Rightarrow> map_of MONTH_SHORT (toLowerCase (take 3 mon)))
                         in case month of
                              Some m \<Rightarrow>
                                Inr (Some (showInt (getFullYear (now E)) @ lit ''-'' @ m @
                                           lit ''-'' @ day))
                            | None \<Rightarrow> genericDate E trimmed)
                    | None \<Rightarrow> genericDate E trimmed)))
      | _ \<Rightarrow> Inr None)"

text \<open>
  \<open>getCloseDateIso\<close>: \<open>row["~Srt_Close"] || row.Close\<close> reads the second field
  only when the first is falsy.
\<close>

definition getCloseDateIso :: "env \<Rightarrow> json \<Rightarrow> error + jsstring option" where
  "getCloseDateIso E row =
     bindE (getProp row (lit ''~Srt_Close''))
       (\<lambda>a. bindE (if truthy a then Inr a else getProp row (lit ''Close''))
          (\<lambda>normalised. bindE (stripHtml normalised)
             (\<lambda>s. normalizeDate E (Some (JStr s)))))"

definition isClosingToday :: "env \<Rightarrow> json \<Rightarrow> jsstring \<Rightarrow> error + bool" where
  "isClosingToday E row todayIso =
     bindE (getCloseDateIso E row) (\<lambda>closeIso. Inr (closeIso = Some todayIso))"

section \<open>\<open>JSON.stringify\<close>\<close>

text \<open>\<open>Number.prototype.toString\<close> in radix 10.\<close>

definition numToString :: "jsnum \<Rightarrow> jsstring" where
  "numToString x =
     (case x of
        NumInfinite neg \<Rightarrow> (if neg then lit ''-Infinity'' else lit ''Infinity'')
      | NumFinite neg s n \<Rightarrow>
          (if s = 0 then lit ''0''
           else
             (let ds = digitsOf s;
                  k = int (length ds);
                  e = n - 1;
                  es = (if e < 0 then lit ''-'' else lit ''+'') @ digitsOf (nat \<bar>e\<bar>);
                  body =
                    (if k \<le> n \<and> n \<le> 21 then ds @ replicate (nat (n - k)) 0x30
                     else if 0 < n \<and> n \<le> 21 then take (nat n) ds @ lit ''.'' @ drop (nat n) ds
                     else if - 6 < n \<and> n \<le> 0 then lit ''0.'' @ replicate (nat (- n)) 0x30 @ ds
                     else if k = 1 then ds @ lit ''e'' @ es
                     else take 1 ds @ lit ''.'' @ drop 1 ds @ lit ''e'' @ es)
              in (if neg then lit ''-'' else []) @ body)))"

definition hexDigit :: "nat \<Rightarrow> 16 word" where
  "hexDigit d = (if d < 10 then of_nat (48 + d) else of_nat (87 + d))"

definition hex4 :: "16 word \<Rightarrow> jsstring" where
  "hex4 c =
     (let n = unat c
      in [hexDigit (n div 4096), hexDigit (n div 256 mod 16), hexDigit (n div 16 mod 16),
          hexDigit (n mod 16)])"

definition isHighSurrogate :: "16 word \<Rightarrow> bool" where
  "isHighSurrogate c = (0xD800 \<le> c \<and> c \<le> 0xDBFF)"

definition isLowSurrogate :: "16 word \<Rightarrow> bool" where
  "isLowSurrogate c = (0xDC00 \<le> c \<and> c \<le> 0xDFFF)"

text \<open>
  The inside of a quoted JSON string: the short escapes, \<open>\uXXXX\<close> for the other
  control characters and for a surrogate that has no partner, every other unit as it is.
\<close>

fun escapeJSON :: "jsstring \<Rightarrow> jsstring" where
  "escapeJSON [] = []"
| "escapeJSON [c] =
     (if c = 0x08 then [0x5C, 0x62] else if c = 0x09 then [0x5C, 0x74]
      else if c = 0x0A then [0x5C, 0x6E] else if c = 0x0C then [0x5C, 0x66]
      else if c = 0x0D then [0x5C, 0x72] else if c = 0x22 then [0x5C, 0x22]
      else if c = 0x5C then [0x5C, 0x5C]
      else if c < 0x20 \<or> isHighSurrogate c \<or> isLowSurrogate c then [0x5C, 0x75] @ hex4 c
      else [c])"
| "escapeJSON (c # d # ds) =
     (if isHighSurrogate c \<and> isLowSurrogate d then c # d # escapeJSON ds
      else escapeJSON [c] @ escapeJSON (d # ds))"

definition quoteJSON :: "jsstring \<Rightarrow> jsstring" where
  "quoteJSON s = [0x22] @ escapeJSON s @ [0x22]"

fun joinWith :: "jsstring \<Rightarrow> jsstring list \<Rightarrow> jsstring" where
  "joinWith sep [] = []"
| "joinWith sep [x] = x"
| "joinWith sep (x # y # ys) = x @ sep @ joinWith sep (y # ys)"

text \<open>
  The serialisation of a value at the indentation \<open>ind\<close>, each level adding \<open>gap\<close>;
  an empty \<open>gap\<close> gives the compact form.
\<close>

fun serialize :: "jsstring \<Rightarrow> jsstring \<Rightarrow> json \<Rightarrow> jsstring"
  and serializeElements :: "jsstring \<Rightarrow> jsstring \<Rightarrow> json list \<Rightarrow> jsstring list"
  and serializeMembers :: "jsstring \<Rightarrow> jsstring \<Rightarrow> (jsstring \<times> json) list \<Rightarrow> jsstring list"
where
  "serialize gap ind JNull = lit ''null''"
| "serialize gap ind (JBool b) = (if b then lit ''true'' else lit ''false'')"
| "serialize gap ind (JNum x) =
     (case x of NumInfinite neg \<Rightarrow> lit ''null'' | NumFinite neg s n \<Rightarrow> numToString x)"
| "serialize gap ind (JStr s) = quoteJSON s"
| "serialize gap ind (JArr xs) =
     (if xs = [] then lit ''[]''
      else if gap = [] then lit ''['' @ joinWith (lit '','') (serializeElements gap (ind @ gap) xs) @ lit '']''
      else lit ''['' @ [0x0A] @ (ind @ gap) @
           joinWith (lit '','' @ [0x0A] @ (ind @ gap)) (serializeElements gap (ind @ gap) xs) @
           [0x0A] @ ind @ lit '']'')"
| "serialize gap ind (JObj kvs) =
     (if kvs = [] then lit ''{}''
      else if gap = [] then lit ''{'' @ joinWith (lit '','') (serializeMembers gap (ind @ gap) kvs) @ lit ''}''
      else lit ''{'' @ [0x0A] @ (ind @ gap) @
           joinWith (lit '','' @ [0x0A] @ (ind @ gap)) (serializeMembers gap (ind @ gap) kvs) @
           [0x0A] @ ind @ lit ''}'')"
| "serializeElements gap ind [] = []"
| "serializeElements gap ind (x # xs) = serialize gap ind x # serializeElements gap ind xs"
| "serializeMembers gap ind [] = []"
| "serializeMembers gap ind ((k, v) # kvs) =
     (quoteJSON k @ lit '':'' @ (if gap = [] then [] else lit '' '') @ serialize gap ind v)
       # serializeMembers gap ind kvs"

text \<open>
  \<open>JSON.stringify(v, null, indent)\<close> and \<open>JSON.stringify(v)\<close> (\<open>indent = 0\<close>)
  on a value that came out of \<open>JSON.parse\<close> or was built from strings and booleans.
\<close>

definition JSON_stringify :: "nat \<Rightarrow> json \<Rightarrow> jsstring" where
  "JSON_stringify indent v = serialize (replicate (min indent 10) 0x20) [] v"

section \<open>Row formatter and message composer\<close>

text \<open>\<open>stripHtml(row[k]) || dflt\<close>.\<close>

definition fieldOr :: "json \<Rightarrow> jsstring \<Rightarrow> jsstring \<Rightarrow> error + jsstring" where
  "fieldOr row k dflt =
     bindE (getProp row k)
       (\<lambda>v. bindE (stripHtml v) (\<lambda>s. Inr (if s \<noteq> [] then s else dflt)))"

definition formatIpoRow :: "json \<Rightarrow> error + jsstring" where
  "formatIpoRow row =
     bindE (fieldOr row (lit ''Name'') (lit ''Unknown IPO'')) (\<lambda>name.
     bindE (fieldOr row (lit ''GMP'') (lit ''-'')) (\<lambda>gmp.
     bindE (fieldOr row (lit ''Price'') (lit ''-'')) (\<lambda>price.
     bindE (fieldOr row (lit ''Sub'') (lit ''-'')) (\<lambda>subs.
     bindE (fieldOr row (lit ''GMP(L/H)'') (lit ''-'')) (\<lambda>gmpRange.
     bindE (fieldOr row (lit ''Open'') []) (\<lambda>open.
     bindE (fieldOr row (lit ''Close'') []) (\<lambda>close.
     (let windowText =
            (if open \<noteq> [] \<or> close \<noteq> []
             then (if open \<noteq> [] then open else lit ''-'') @ [0x20, 0x2013, 0x20] @
                  (if close \<noteq> [] then close else lit ''-'')
             else lit ''-'')
      in
     bindE (fieldOr row (lit ''Listing'') (lit ''-'')) (\<lambda>listing.
     bindE (fieldOr row (lit ''Updated-On'') (lit ''-'')) (\<lambda>updated.
       Inr (joinWith [0x0A]
         [[0x2022, 0x20] @ name,
          lit ''  GMP: '' @ gmp,
          lit ''  Price: '' @ price,
          lit ''  Subscriptions: '' @ subs,
          lit ''  GMP Range: '' @ gmpRange,
          lit ''  Window: '' @ windowText,
          lit ''  Listing: '' @ listing,
          lit ''  Updated: '' @ updated,
          lit ''  Action: Apply today before the window closes '' @ [0x2705]])))))))))))"

text \<open>
  \<open>xs.filter(p)\<close> and \<open>xs.map(f)\<close> with callbacks that can throw: the elements
  are visited in order and the first exception ends the call.
\<close>

fun filterE :: "('a \<Rightarrow> error + bool) \<Rightarrow> 'a list \<Rightarrow> error + 'a list" where
  "filterE p [] = Inr []"
| "filterE p (x # xs) =
     (case p x of
        Inl e \<Rightarrow> Inl e
      | Inr b \<Rightarrow> (case filterE p xs of Inl e \<Rightarrow> Inl e | Inr ys \<Rightarrow> Inr (if b then x # ys else ys)))"

fun mapE :: "('a \<Rightarrow> error + 'b) \<Rightarrow> 'a list \<Rightarrow> error + 'b list" where
  "mapE f [] = Inr []"
| "mapE f (x # xs) =
     (case f x of
        Inl e \<Rightarrow> Inl e
      | Inr y \<Rightarrow> (case mapE f xs of Inl e \<Rightarrow> Inl e | Inr ys \<Rightarrow> Inr (y # ys)))"

text \<open>
  The row sequence of a payload: \<open>Some rows\<close> when the payload is truthy and its
  \<open>reportTableData\<close> is an array, \<open>None\<close> when the test
  \<open>!data || !Array.isArray(data.reportTableData)\<close> succeeds.
\<close>

definition rowArray :: "json \<Rightarrow> json list option" where
  "rowArray data =
     (if \<not> truthy (Some data) then None
      else (case getProp data (lit ''reportTableData'') of
              Inr (Some (JArr rows)) \<Rightarrow> Some rows
            | _ \<Rightarrow> None))"

definition closingHeader :: "jsstring \<Rightarrow> jsstring" where
  "closingHeader todayIso =
     [0xD83D, 0xDCC8, 0x20] @ lit ''IPOs Closing Today ('' @ todayIso @ lit '')'' @ [0x0A, 0x0A]"

definition formatMessage :: "env \<Rightarrow> json \<Rightarrow> error + jsstring" where
  "formatMessage E data =
     (case rowArray data of
        None \<Rightarrow>
          Inr ([0xD83D, 0xDCC8, 0x20] @ lit ''IPO GMP Update'' @ [0x0A, 0x0A] @ JSON_stringify 2 data)
      | Some reportTableData \<Rightarrow>
          (let todayIso = getTodayIso E
           in bindE (filterE (\<lambda>row. isClosingToday E row todayIso) reportTableData)
                (\<lambda>closingToday. bindE (mapE formatIpoRow closingToday)
                   (\<lambda>blocks.
                      (let rows = trim (joinWith [0x0A, 0x0A] blocks)
                       in if rows = [] then Inr (closingHeader todayIso @ lit ''No IPOs closing today.'')
                          else Inr (closingHeader todayIso @ rows))))))"

section \<open>Configuration, data fetcher and notifier\<close>

text \<open>
  \<open>process.env\<close> as the program reads it (\<open>None\<close> is an unset variable), and the
  four constants both entry points derive from it. Either entry point stops before any
  network call when \<open>!API_URL || !BOT_TOKEN || !CHAT_ID\<close>.
\<close>

record processEnv =
  env_API_URL :: "jsstring option"
  env_BOT_TOKEN :: "jsstring option"
  env_CHAT_ID :: "jsstring option"
  env_API_REPORT_ID :: "jsstring option"

record config =
  API_URL :: jsstring
  BOT_TOKEN :: jsstring
  CHAT_ID :: jsstring
  REPORT_ID :: jsstring

definition loadConfig :: "processEnv \<Rightarrow> config option" where
  "loadConfig pe =
     (case (env_API_URL pe, env_BOT_TOKEN pe, env_CHAT_ID pe) of
        (Some a, Some b, Some c) \<Rightarrow>
          (if a = [] \<or> b = [] \<or> c = [] then None
           else Some \<lparr>API_URL = a, BOT_TOKEN = b, CHAT_ID = c,
                      REPORT_ID = (case env_API_REPORT_ID pe of
                                     Some r \<Rightarrow> (if r \<noteq> [] then r else lit ''331'')
                                   | None \<Rightarrow> lit ''331'')\<rparr>)
      | _ \<Rightarrow> None)"

text \<open>The network calls of a run, in the order they are made.\<close>

datatype request = GET jsstring | POST jsstring jsstring

fun isPost :: "request \<Rightarrow> bool" where
  "isPost (POST url body) = True"
| "isPost (GET url) = False"

definition posts :: "request list \<Rightarrow> request list" where
  "posts rs = filter isPost rs"

text \<open>\<open>err.message\<close>.\<close>

definition messageOf :: "env \<Rightarrow> error \<Rightarrow> jsstring" where
  "messageOf E err =
     (case err of Error m \<Rightarrow> m | Rejected m \<Rightarrow> m | _ \<Rightarrow> engineMessage E err)"

text \<open>\<open>s.replace(/\/$/, "")\<close>.\<close>

definition stripTrailingSlash :: "jsstring \<Rightarrow> jsstring" where
  "stripTrailingSlash s = (if s \<noteq> [] \<and> last s = 0x2F then butlast s else s)"

definition resOk :: "response \<Rightarrow> bool" where
  "resOk res = (200 \<le> res_status res \<and> res_status res \<le> 299)"

subsection \<open>The standalone script (\<open>gmp.js\<close>)\<close>

definition buildApiUrl :: "env \<Rightarrow> config \<Rightarrow> error + jsstring" where
  "buildApiUrl E cfg =
     (let base = stripTrailingSlash (API_URL cfg);
          month = int (getMonth (now E)) + 1;
          year = getFullYear (now E);
          fiscal = getFiscalYearLabel (now E)
      in newURL E
           (base @ lit ''/'' @ REPORT_ID cfg @ lit ''/1/'' @ showInt month @ lit ''/'' @
            showInt year @ lit ''/'' @ fiscal @ lit ''/0/ipo'')
           [(lit ''search'', []), (lit ''v'', buildCacheBuster (now E))])"

definition fetchGmp :: "env \<Rightarrow> config \<Rightarrow> request list \<times> (error + json)" where
  "fetchGmp E cfg =
     (case buildApiUrl E cfg of
        Inl e \<Rightarrow> ([], Inl e)
      | Inr url \<Rightarrow>
          ([GET url],
           bindE (httpGet E url)
             (\<lambda>res. if \<not> resOk res
                    then Inl (Error (lit ''API error '' @ showInt (int (res_status res))))
                    else res_json res)))"

definition telegramUrl :: "config \<Rightarrow> jsstring" where
  "telegramUrl cfg = lit ''https://api.telegram.org/bot'' @ BOT_TOKEN cfg @ lit ''/sendMessage''"

definition telegramBody :: "config \<Rightarrow> jsstring \<Rightarrow> jsstring" where
  "telegramBody cfg text =
     JSON_stringify 0
       (JObj [(lit ''chat_id'', JStr (CHAT_ID cfg)),
              (lit ''text'', JStr text),
              (lit ''disable_web_page_preview'', JBool True)])"

text \<open>
  \<open>sendTelegram\<close>: one POST, whose answer the network gives for the \<open>n\<close>-th
  notification call of the run (counted from 0); then the flag is read from the parsed
  body.
\<close>

definition sendTelegram :: "env \<Rightarrow> config \<Rightarrow> nat \<Rightarrow> jsstring \<Rightarrow> request \<times> (error + json)" where
  "sendTelegram E cfg n text =
     (let url = telegramUrl cfg;
          body = telegramBody cfg text
      in (POST url body,
          bindE (httpPost E n url body)
            (\<lambda>res. bindE (res_json res)
               (\<lambda>json. bindE (getProp json (lit ''ok''))
                  (\<lambda>flag. if \<not> truthy flag
                          then Inl (Error (lit ''Telegram send failed: '' @ JSON_stringify 0 json))
                          else Inr json)))))"

text \<open>The \<open>try\<close> block of \<open>main\<close>: fetch, compose, send.\<close>

definition mainTry :: "env \<Rightarrow> config \<Rightarrow> request list \<times> (error + json)" where
  "mainTry E cfg =
     (case fetchGmp E cfg of
        (r1, Inl e) \<Rightarrow> (r1, Inl e)
      | (r1, Inr data) \<Rightarrow>
          (case formatMessage E data of
             Inl e \<Rightarrow> (r1, Inl e)
           | Inr message \<Rightarrow>
               (case sendTelegram E cfg 0 message of (rq, a) \<Rightarrow> (r1 @ [rq], a))))"

record outcome =
  requests :: "request list"
  exitCode :: nat

text \<open>
  \<open>main\<close>: on an exception of the \<open>try\<close> block, one more \<open>sendTelegram\<close> with
  the error text, whose own failure is only logged, then \<open>process.exit(1)\<close>.
\<close>

definition main :: "env \<Rightarrow> config \<Rightarrow> outcome" where
  "main E cfg =
     (case mainTry E cfg of
        (reqs, Inr sent) \<Rightarrow> \<lparr>requests = reqs, exitCode = 0\<rparr>
      | (reqs, Inl err) \<Rightarrow>
          (case sendTelegram E cfg (length (posts reqs))
                  ([0x26A0, 0xFE0F] @ lit '' GMP Bot error: '' @ messageOf E err) of
             (rq, a) \<Rightarrow> \<lparr>requests = reqs @ [rq], exitCode = 1\<rparr>))"

definition gmp_script :: "env \<Rightarrow> processEnv \<Rightarrow> outcome" where
  "gmp_script E pe =
     (case loadConfig pe of
        None \<Rightarrow> \<lparr>requests = [], exitCode = 1\<rparr>
      | Some cfg \<Rightarrow> main E cfg)"

subsection \<open>The request handler (\<open>part_000\<close>)\<close>

text \<open>
  \<open>new URLSearchParams({...}).toString()\<close>: each name and value is written in UTF-8
  (a surrogate without partner as U+FFFD) and percent-encoded, but for letters, digits and
  \<open>* - . _\<close>, with \<open>+\<close> for a space.
\<close>

fun codePoints :: "jsstring \<Rightarrow> nat list" where
  "codePoints [] = []"
| "codePoints [c] = (if isHighSurrogate c \<or> isLowSurrogate c then [0xFFFD] else [unat c])"
| "codePoints (c # d # ds) =
     (if isHighSurrogate c \<and> isLowSurrogate d
      then (0x10000 + (unat c - 0xD800) * 0x400 + (unat d - 0xDC00)) # codePoints ds
      else codePoints [c] @ codePoints (d # ds))"

definition utf8 :: "nat \<Rightarrow> nat list" where
  "utf8 cp =
     (if cp < 0x80 then [cp]
      else if cp < 0x800 then [0xC0 + cp div 64, 0x80 + cp mod 64]
      else if cp < 0x10000 then [0xE0 + cp div 4096, 0x80 + cp div 64 mod 64, 0x80 + cp mod 64]
      else [0xF0 + cp div 262144, 0x80 + cp div 4096 mod 64, 0x80 + cp div 64 mod 64,
            0x80 + cp mod 64])"

definition upperHexDigit :: "nat \<Rightarrow> 16 word" where
  "upperHexDigit d = (if d < 10 then of_nat (48 + d) else of_nat (55 + d))"

definition formEncodeByte :: "nat \<Rightarrow> jsstring" where
  "formEncodeByte b =
     (if (0x30 \<le> b \<and> b \<le> 0x39) \<or> (0x41 \<le> b \<and> b \<le> 0x5A) \<or> (0x61 \<le> b \<and> b \<le> 0x7A) \<or>
         b = 0x2A \<or> b = 0x2D \<or> b = 0x2E \<or> b = 0x5F
      then [of_nat b]
      else if b = 0x20 then lit ''+''
      else [0x25, upperHexDigit (b div 16), upperHexDigit (b mod 16)])"

definition formEncode :: "jsstring \<Rightarrow> jsstring" where
  "formEncode s = concat (map formEncodeByte (concat (map utf8 (codePoints s))))"

definition searchParamsToString :: "(jsstring \<times> jsstring) list \<Rightarrow> jsstring" where
  "searchParamsToString ps =
     joinWith (lit ''&'') (map (\<lambda>(k, v). formEncode k @ lit ''='' @ formEncode v) ps)"

definition h_buildApiUrl :: "env \<Rightarrow> config \<Rightarrow> jsstring" where
  "h_buildApiUrl E cfg =
     (let base = stripTrailingSlash (trim (API_URL cfg));
          reportId = trim (REPORT_ID cfg);
          month = int (getMonth (now E)) + 1;
          year = getFullYear (now E);
          fiscal = getFiscalYearLabel (now E);
          path = base @ lit ''/'' @ reportId @ lit ''/1/'' @ showInt month @ lit ''/'' @
                 showInt year @ lit ''/'' @ fiscal @ lit ''/0/ipo''
      in path @ lit ''?'' @
         searchParamsToString [(lit ''search'', []), (lit ''v'', buildCacheBuster (now E))])"

definition h_fetchGmp :: "env \<Rightarrow> config \<Rightarrow> request list \<times> (error + json)" where
  "h_fetchGmp E cfg =
     (let url = h_buildApiUrl E cfg
      in ([GET url],
          bindE (httpGet E url)
            (\<lambda>res. if \<not> resOk res
                   then Inl (Error (lit ''API error '' @ showInt (int (res_status res))))
                   else res_json res)))"

definition h_sendTelegram :: "env \<Rightarrow> config \<Rightarrow> nat \<Rightarrow> jsstring \<Rightarrow> request \<times> (error + json)" where
  "h_sendTelegram E cfg n text =
     (let url = telegramUrl cfg;
          body = telegramBody cfg text
      in (POST url body,
          bindE (httpPost E n url body)
            (\<lambda>res. bindE (res_json res)
               (\<lambda>json. bindE (getProp json (lit ''ok''))
                  (\<lambda>flag. if \<not> truthy flag
                          then Inl (Error (lit ''Telegram send failed: '' @ JSON_stringify 0 json @
                                           lit '' ''))
                          else Inr json)))))"

text \<open>
  The helpers of the handler from \<open>getTodayIso\<close> to \<open>formatMessage\<close> repeat those of
  \<open>gmp.js\<close> statement for statement, but for \<open>decodeHtmlEntities\<close>, which is shown
  below to compute the same function; the handler is therefore modelled on the same
  definitions.
\<close>

definition handlerTry :: "env \<Rightarrow> config \<Rightarrow> request list \<times> (error + json)" where
  "handlerTry E cfg =
     (case h_fetchGmp E cfg of
        (r1, Inl e) \<Rightarrow> (r1, Inl e)
      | (r1, Inr data) \<Rightarrow>
          (case formatMessage E data of
             Inl e \<Rightarrow> (r1, Inl e)
           | Inr message \<Rightarrow>
               (case h_sendTelegram E cfg 0 message of (rq, a) \<Rightarrow> (r1 @ [rq], a))))"

record reply =
  h_requests :: "request list"
  statusCode :: nat
  body :: json

definition handler :: "env \<Rightarrow> processEnv \<Rightarrow> reply" where
  "handler E pe =
     (case loadConfig pe of
        None \<Rightarrow>
          \<lparr>h_requests = [], statusCode = 500,
           body = JObj [(lit ''error'', JStr (lit ''Missing environment variables''))]\<rparr>
      | Some cfg \<Rightarrow>
          (case handlerTry E cfg of
             (reqs, Inr sent) \<Rightarrow>
               \<lparr>h_requests = reqs, statusCode = 200,
                body = JObj [(lit ''ok'', JBool True), (lit ''sent'', JStr (nowISO E))]\<rparr>
           | (reqs, Inl err) \<Rightarrow>
               \<lparr>h_requests = reqs, statusCode = 500,
                body = JObj [(lit ''error'', JStr (messageOf E err))]\<rparr>))"

section \<open>Reference definitions and sample inputs\<close>

text \<open>
  The resolved close date of a row in the words of the specification: the field
  \<open>~Srt_Close\<close> is preferred, \<open>Close\<close> is the fallback, and the chosen value is
  stripped of markup and then normalised as a date.
\<close>

definition resolveCloseDate :: "env \<Rightarrow> (jsstring \<times> json) list \<Rightarrow> error + jsstring option" where
  "resolveCloseDate E kvs =
     (let preferred = map_of kvs (lit ''~Srt_Close'');
          raw = (if truthy preferred then preferred else map_of kvs (lit ''Close''))
      in bindE (stripHtml raw) (\<lambda>stripped. normalizeDate E (Some (JStr stripped))))"

text \<open>
  The success flag of a parsed provider response: its property \<open>ok\<close>, which only an
  object can have.
\<close>

definition okFlag :: "json \<Rightarrow> jsval" where
  "okFlag j = (case j of JObj kvs \<Rightarrow> map_of kvs (lit ''ok'') | _ \<Rightarrow> None)"




text \<open>
  A sample platform for concrete runs: the morning of 5 April 2024 in India; a URL parser
  that returns an absolute URL in normal form as it is, with the query appended; a date
  parser that knows the one string used below, to which ECMAScript gives the first instant
  of the year 10000; and a network given by the caller.
\<close>

definition plainURL :: "jsstring \<Rightarrow> (jsstring \<times> jsstring) list \<Rightarrow> error + jsstring" where
  "plainURL u ps = Inr (u @ lit ''?'' @ searchParamsToString ps)"

definition sampleEnv ::
  "(jsstring \<Rightarrow> error + response) \<Rightarrow> (nat \<Rightarrow> jsstring \<Rightarrow> jsstring \<Rightarrow> error + response) \<Rightarrow> env" where
  "sampleEnv get post =
     \<lparr>now = \<lparr>getFullYear = 2024, getMonth = 3, getDate = 5, getHours = 9, getMinutes = 7\<rparr>,
      todayKolkata = lit ''2024-04-05'',
      nowISO = lit ''2024-04-05T03:37:00.000Z'',
      dateParse = (\<lambda>s. if s = lit ''+010000-01-01T00:00:00.000Z''
                       then Some 253402300800000 else None),
      newURL = plainURL,
      engineMessage = (\<lambda>e. lit ''engine error''),
      httpGet = get,
      httpPost = post\<rparr>"

definition serverError :: "error + response" where
  "serverError = Inr \<lparr>res_status = 500, res_json = Inr (JObj [])\<rparr>"

definition accepted :: "error + response" where
  "accepted = Inr \<lparr>res_status = 200, res_json = Inr (JObj [(lit ''ok'', JBool True)])\<rparr>"

definition samplePayload :: json where
  "samplePayload =
     JObj [(lit ''reportTableData'',
            JArr [JObj [(lit ''Name'', JStr (lit ''<b>Foo</b>'')),
                        (lit ''Close'', JStr (lit ''05-Apr'')),
                        (lit ''~Srt_Close'', JStr (lit ''2024-04-05'')),
                        (lit ''GMP'', JStr (lit ''50''))]])]"

text \<open>
  The sample platform when the data endpoint answers every request with status 500, and
  when it delivers the sample payload; the messaging provider accepts every message.
\<close>

definition downEnv :: env where
  "downEnv = sampleEnv (\<lambda>url. serverError) (\<lambda>n url b. accepted)"

definition upEnv :: env where
  "upEnv = sampleEnv (\<lambda>url. Inr \<lparr>res_status = 200, res_json = Inr samplePayload\<rparr>)
                     (\<lambda>n url b. accepted)"

text \<open>The sample platform when the messaging provider gives one fixed answer.\<close>

definition envWithAnswer :: "response \<Rightarrow> env" where
  "envWithAnswer res = sampleEnv (\<lambda>url. serverError) (\<lambda>n url b. Inr res)"

definition sampleConfig :: config where
  "sampleConfig =
     \<lparr>API_URL = lit ''https://example.com/api/'', BOT_TOKEN = lit ''TOKEN'',
      CHAT_ID = lit ''42'', REPORT_ID = lit ''331''\<rparr>"

definition sampleProcessEnv :: processEnv where
  "sampleProcessEnv =
     \<lparr>env_API_URL = Some (lit ''https://example.com/api/''),
      env_BOT_TOKEN = Some (lit ''TOKEN''),
      env_CHAT_ID = Some (lit ''42''),
      env_API_REPORT_ID = None\<rparr>"

section \<open>Evaluation rules\<close>

lemma gap2: "replicate 2 c = [c, c]"
  by (simp add: numeral_2_eq_2)

lemma digitsOf_numeral:
  "digitsOf (numeral k) =
     (if (numeral k :: nat) < 10 then [digitChar (numeral k)]
      else digitsOf (numeral k div 10) @ [digitChar (numeral k mod 10)])"
  by (rule digitsOf.simps)

lemma digitsOf_small: "digitsOf 0 = [digitChar 0]" "digitsOf 1 = [digitChar 1]"
  by (simp_all add: digitsOf.simps)

lemmas string_eval =
  lit_def isDigit_def isSpace_def isAlpha_def trim_def numberOf_def digitChar_def
  padStart_def showInt_def digitsOf_numeral digitsOf_small sliceLast2_def toLowerCase_def

lemmas markup_eval =
  stripHtml_def decodeHtmlEntities_def bindE_def matchNumericRef_def namedMap_def
  orEmpty_def fromCodePoint_def

lemma downEnv_simps:
  "now downEnv = \<lparr>getFullYear = 2024, getMonth = 3, getDate = 5, getHours = 9, getMinutes = 7\<rparr>"
  "todayKolkata downEnv = lit ''2024-04-05''"
  "dateParse downEnv = (\<lambda>s. if s = lit ''+010000-01-01T00:00:00.000Z''
                                then Some 253402300800000 else None)"
  "httpGet downEnv = (\<lambda>url. serverError)"
  "httpPost downEnv = (\<lambda>n url b. accepted)"
  "newURL downEnv = plainURL"
  "engineMessage downEnv = (\<lambda>e. lit ''engine error'')"
  by (simp_all add: downEnv_def sampleEnv_def)

lemmas row_eval =
  getProp_def truthy_def normalizeDate_def isIsoDateForm_def matchShort_def MONTH_SHORT_def
  getCloseDateIso_def isClosingToday_def genericDate_def getTodayIso_def

section \<open>Properties of the URL builder\<close>

lemma digitsOf_nonempty: "digitsOf n \<noteq> []"
  by (subst digitsOf.simps) simp

lemma last_digitsOf: "last (digitsOf n) = digitChar (n mod 10)"
  by (subst digitsOf.simps) simp

lemma sliceLast2_snoc:
  assumes "xs \<noteq> []"
  shows "sliceLast2 (xs @ [a]) = [last xs, a]"
proof -
  from assms obtain ys y where xs: "xs = ys @ [y]"
    by (metis append_butlast_last_id)
  show ?thesis
    by (simp add: xs sliceLast2_def)
qed

lemma sliceLast2_digitsOf:
  assumes "10 \<le> n"
  shows "sliceLast2 (digitsOf n) = [digitChar (n div 10 mod 10), digitChar (n mod 10)]"
proof -
  from assms have "digitsOf n = digitsOf (n div 10) @ [digitChar (n mod 10)]"
    by (subst digitsOf.simps) simp
  then show ?thesis
    by (simp add: sliceLast2_snoc digitsOf_nonempty last_digitsOf)
qed

lemma sliceLast2_showInt:
  assumes "10 \<le> n"
  shows "sliceLast2 (showInt n) = lastTwoDigits n"
proof -
  from assms have "10 \<le> nat n" by simp
  then have "sliceLast2 (digitsOf (nat n)) =
      [digitChar (nat n div 10 mod 10), digitChar (nat n mod 10)]"
    by (rule sliceLast2_digitsOf)
  moreover from assms have "nat n div 10 mod 10 = nat (n div 10 mod 10)"
    by (simp add: nat_div_distrib nat_mod_distrib)
  moreover from assms have "nat n mod 10 = nat (n mod 10)"
    by (simp add: nat_mod_distrib)
  ultimately show ?thesis
    using assms by (simp add: showInt_def lastTwoDigits_def)
qed

text \<open>
  Claim C7. For a date whose calendar year has at least two digits (any year the clock can
  show), the fiscal-year label is the start year, a hyphen, and the last two digits of
  start + 1; the start year is the calendar year from April to December and the calendar
  year minus 1 from January to March.
\<close>

theorem getFiscalYearLabel_start_and_tail:
  assumes "10 \<le> getFullYear d"
  shows "(3 \<le> getMonth d \<and> getMonth d \<le> 11 \<longrightarrow>
            getFiscalYearLabel d =
              showInt (getFullYear d) @ lit ''-'' @ lastTwoDigits (getFullYear d + 1))
       \<and> (getMonth d \<le> 2 \<longrightarrow>
            getFiscalYearLabel d =
              showInt (getFullYear d - 1) @ lit ''-'' @ lastTwoDigits (getFullYear d - 1 + 1))"
  using assms by (simp add: getFiscalYearLabel_def Let_def sliceLast2_showInt)

theorem getFiscalYearLabel_start_and_tail_witness:
  "getFiscalYearLabel \<lparr>getFullYear = 2024, getMonth = 4, getDate = 5, getHours = 9, getMinutes = 7\<rparr>
     = lit ''2024-25''
   \<and> getFiscalYearLabel \<lparr>getFullYear = 2100, getMonth = 1, getDate = 5, getHours = 9, getMinutes = 7\<rparr>
     = lit ''2099-00''"
proof -
  let ?a = "\<lparr>getFullYear = 2024, getMonth = 4, getDate = 5, getHours = 9, getMinutes = 7\<rparr>"
  let ?b = "\<lparr>getFullYear = 2100, getMonth = 1, getDate = 5, getHours = 9, getMinutes = 7\<rparr>"
  have a: "(10::int) \<le> getFullYear ?a" and b: "(10::int) \<le> getFullYear ?b"
    by simp_all
  have d1: "showInt 2024 = lit ''2024''" and d2: "showInt 2099 = lit ''2099''"
    by (simp_all add: showInt_def digitsOf_numeral digitChar_def lit_def)
  from getFiscalYearLabel_start_and_tail [OF a] getFiscalYearLabel_start_and_tail [OF b]
  show ?thesis
    by (simp add: d1 d2 lastTwoDigits_def digitChar_def lit_def)
qed

section \<open>Properties of the row filter\<close>

text \<open>
  Claim C3. \<open>isClosingToday\<close> returns true exactly when the resolved close date of the
  row is the reference date; for a row that is an object the resolved close date is the
  one the specification describes (\<open>~Srt_Close\<close> preferred, \<open>Close\<close> as fallback,
  markup stripped, date normalised); and a row whose resolved close date is the
  unparseable sentinel does not match, whatever the reference date.
\<close>

theorem isClosingToday_iff_resolved_close_date:
  "(isClosingToday E row todayIso = Inr True \<longleftrightarrow> getCloseDateIso E row = Inr (Some todayIso))
   \<and> getCloseDateIso E (JObj kvs) = resolveCloseDate E kvs
   \<and> (getCloseDateIso E row = Inr None \<longrightarrow> isClosingToday E row todayIso = Inr False)"
  by (auto simp: isClosingToday_def getCloseDateIso_def resolveCloseDate_def getProp_def
                 bindE_def Let_def split: sum.splits)

theorem isClosingToday_iff_resolved_close_date_witness:
  "isClosingToday (downEnv)
     (JObj [(lit ''Name'', JStr (lit ''<b>Foo</b>'')), (lit ''Close'', JStr (lit ''05-Apr'')),
            (lit ''~Srt_Close'', JStr (lit ''2024-04-05''))])
     (lit ''2024-04-05'') = Inr True
   \<and> isClosingToday (downEnv)
     (JObj [(lit ''Close'', JStr (lit ''soon''))]) (lit ''2024-04-05'') = Inr False"
proof -
  let ?E = "downEnv"
  let ?r1 = "JObj [(lit ''Name'', JStr (lit ''<b>Foo</b>'')), (lit ''Close'', JStr (lit ''05-Apr'')),
                   (lit ''~Srt_Close'', JStr (lit ''2024-04-05''))]"
  let ?r2 = "JObj [(lit ''Close'', JStr (lit ''soon''))]"
  have c1: "getCloseDateIso ?E ?r1 = Inr (Some (lit ''2024-04-05''))"
    by (simp add: row_eval markup_eval string_eval)
  have c2: "getCloseDateIso ?E ?r2 = Inr None"
    by (simp add: row_eval markup_eval string_eval downEnv_simps)
  from isClosingToday_iff_resolved_close_date [of ?E ?r1 "lit ''2024-04-05''"]
       isClosingToday_iff_resolved_close_date [of ?E ?r2 "lit ''2024-04-05''"] c1 c2
  show ?thesis by blast
qed



section \<open>Properties of markup stripping\<close>





































section \<open>Properties of date normalisation\<close>

lemma isDigit_digitChar:
  assumes "d < 10"
  shows "isDigit (digitChar d)"
proof -
  from assms have "d \<in> {0, 1, 2, 3, 4, 5, 6, 7, 8, 9}" by auto
  then show ?thesis
    by (auto simp: isDigit_def digitChar_def)
qed

lemma isDigit_digitChar_mod: "isDigit (digitChar (n mod 10))"
  by (rule isDigit_digitChar) simp

lemma fixedDigits_2: "fixedDigits 2 n = [digitChar (n div 10 mod 10), digitChar (n mod 10)]"
proof -
  have two: "(2::nat) = Suc (Suc 0)" by simp
  show ?thesis by (subst two) simp
qed

lemma fixedDigits_3:
  "fixedDigits 3 n =
     [digitChar (n div 100 mod 10), digitChar (n div 10 mod 10), digitChar (n mod 10)]"
proof -
  have three: "(3::nat) = Suc (Suc (Suc 0))" by simp
  show ?thesis by (subst three) (simp add: div_mult2_eq [symmetric])
qed

lemma fixedDigits_4:
  "fixedDigits 4 n =
     [digitChar (n div 1000 mod 10), digitChar (n div 100 mod 10),
      digitChar (n div 10 mod 10), digitChar (n mod 10)]"
proof -
  have four: "(4::nat) = Suc (Suc (Suc (Suc 0)))" by simp
  show ?thesis by (subst four) (simp add: div_mult2_eq [symmetric])
qed

lemma fixedDigits_6:
  "fixedDigits 6 n =
     [digitChar (n div 100000 mod 10), digitChar (n div 10000 mod 10),
      digitChar (n div 1000 mod 10), digitChar (n div 100 mod 10),
      digitChar (n div 10 mod 10), digitChar (n mod 10)]"
proof -
  have six: "(6::nat) = Suc (Suc (Suc (Suc (Suc (Suc 0)))))" by simp
  show ?thesis by (subst six) (simp add: div_mult2_eq [symmetric])
qed

lemma digitsOf_four:
  assumes "1000 \<le> n" "n \<le> 9999"
  shows "digitsOf n = [digitChar (n div 1000), digitChar (n div 100 mod 10),
                       digitChar (n div 10 mod 10), digitChar (n mod 10)]"
proof -
  from assms have n: "\<not> n < 10" "\<not> n div 10 < 10" "\<not> n div 100 < 10" "n div 1000 < 10"
    by arith+
  have a: "digitsOf n = digitsOf (n div 10) @ [digitChar (n mod 10)]"
    using digitsOf.simps [of n] n by simp
  have b: "digitsOf (n div 10) = digitsOf (n div 100) @ [digitChar (n div 10 mod 10)]"
    using digitsOf.simps [of "n div 10"] n by (simp add: div_mult2_eq [symmetric])
  have c: "digitsOf (n div 100) = digitsOf (n div 1000) @ [digitChar (n div 100 mod 10)]"
    using digitsOf.simps [of "n div 100"] n by (simp add: div_mult2_eq [symmetric])
  have d: "digitsOf (n div 1000) = [digitChar (n div 1000)]"
    using digitsOf.simps [of "n div 1000"] n by simp
  show ?thesis
    by (simp add: a b c d)
qed

lemma month_two_digits:
  "map_of MONTH_SHORT k = Some m \<Longrightarrow> \<exists>a b. m = [a, b] \<and> isDigit a \<and> isDigit b"
  by (auto simp: MONTH_SHORT_def lit_def isDigit_def split: if_splits)

lemma padStart_one: "padStart 2 c [a] = [c, a]"
  by (simp add: padStart_def)

lemma padStart_two: "padStart 2 c [a, b] = [a, b]"
  by (simp add: padStart_def)

lemma matchShort_day:
  "matchShort s = Some (dd, mon) \<Longrightarrow>
     \<exists>a b. padStart 2 0x30 dd = [a, b] \<and> isDigit a \<and> isDigit b"
  by (auto simp: matchShort_def padStart_one padStart_two isDigit_def
           split: list.splits if_splits)

lemma showInt_four:
  assumes "1000 \<le> y" "y \<le> 9999"
  shows "\<exists>a b c d. showInt y = [a, b, c, d] \<and> isDigit a \<and> isDigit b \<and> isDigit c \<and> isDigit d"
proof -
  from assms have n: "1000 \<le> nat y" "nat y \<le> 9999" by simp_all
  from n have "nat y div 1000 < 10" by arith
  then have "isDigit (digitChar (nat y div 1000))" by (rule isDigit_digitChar)
  with assms digitsOf_four [OF n] show ?thesis
    by (simp add: showInt_def isDigit_digitChar_mod)
qed

lemma short_date_form:
  assumes "1000 \<le> y" "y \<le> 9999" "matchShort s = Some (dd, mon)" "map_of MONTH_SHORT k = Some m"
  shows "isIsoDateForm (showInt y @ lit ''-'' @ m @ lit ''-'' @ padStart 2 0x30 dd)"
proof -
  from showInt_four [OF assms(1,2)] obtain a b c d where
    y: "showInt y = [a, b, c, d]" "isDigit a" "isDigit b" "isDigit c" "isDigit d" by blast
  from month_two_digits [OF assms(4)] obtain m1 m2 where
    m: "m = [m1, m2]" "isDigit m1" "isDigit m2" by blast
  from matchShort_day [OF assms(3)] obtain d1 d2 where
    d: "padStart 2 0x30 dd = [d1, d2]" "isDigit d1" "isDigit d2" by blast
  show ?thesis
    by (simp add: y m d isIsoDateForm_def lit_def)
qed

lemma toISOString_shape:
  "\<exists>rest. toISOString (Some t) =
     Inr (isoYear (utcYear t) @ lit ''-'' @ fixedDigits 2 (nat (utcMonth t)) @ lit ''-'' @
          fixedDigits 2 (nat (utcDate t)) @ rest)"
  by (simp add: toISOString_def)

lemma take_10_date:
  "take 10 (fixedDigits 4 a @ lit ''-'' @ fixedDigits 2 b @ lit ''-'' @ fixedDigits 2 c @ rest) =
     fixedDigits 4 a @ lit ''-'' @ fixedDigits 2 b @ lit ''-'' @ fixedDigits 2 c"
  by (simp add: fixedDigits_2 fixedDigits_4 lit_def)

lemma isIsoDateForm_fixed:
  "isIsoDateForm (fixedDigits 4 a @ lit ''-'' @ fixedDigits 2 b @ lit ''-'' @ fixedDigits 2 c)"
  by (simp add: fixedDigits_2 fixedDigits_4 lit_def isIsoDateForm_def isDigit_digitChar_mod)

lemma iso_prefix_form:
  assumes "toISOString (Some t) = Inr isoText" "0 \<le> utcYear t" "utcYear t \<le> 9999"
  shows "isIsoDateForm (take 10 isoText)"
proof -
  from toISOString_shape [of t] assms obtain rest where
    "isoText = fixedDigits 4 (nat (utcYear t)) @ lit ''-'' @
       fixedDigits 2 (nat (utcMonth t)) @ lit ''-'' @ fixedDigits 2 (nat (utcDate t)) @ rest"
    by (auto simp: isoYear_def)
  then show ?thesis
    by (simp only: take_10_date isIsoDateForm_fixed)
qed

lemma toISOString_returns: "\<exists>isoText. toISOString (Some t) = Inr isoText"
  using toISOString_shape [of t] by blast

lemma genericDate_returns: "\<exists>r. genericDate E s = Inr r"
proof (cases "dateParse E s")
  case None
  then show ?thesis by (simp add: genericDate_def)
next
  case (Some t)
  with toISOString_returns [of t] show ?thesis
    by (auto simp: genericDate_def bindE_def)
qed

lemma normalizeDate_returns: "\<exists>r. normalizeDate E v = Inr r"
proof (cases "\<exists>s. v = Some (JStr s)")
  case False
  then have "normalizeDate E v = Inr None"
    by (auto simp: normalizeDate_def split: option.splits json.splits)
  then show ?thesis by blast
next
  case True
  then obtain s where v: "v = Some (JStr s)" by blast
  obtain g where g: "genericDate E (trim s) = Inr g"
    using genericDate_returns by blast
  show ?thesis
    by (cases "matchShort (trim s)")
       (auto simp: normalizeDate_def v g Let_def split: option.splits)
qed

lemma normalizeDate_form:
  assumes "1000 \<le> getFullYear (now E)" "getFullYear (now E) \<le> 9999"
    and "normalizeDate E v = Inr (Some r)"
  shows "isIsoDateForm r \<or>
         (\<exists>s t isoText. v = Some (JStr s) \<and> dateParse E (trim s) = Some t \<and>
                (utcYear t < 0 \<or> 9999 < utcYear t) \<and>
                toISOString (Some t) = Inr isoText \<and> r = take 10 isoText)"
proof -
  from assms(3) obtain s where v: "v = Some (JStr s)"
    by (auto simp: normalizeDate_def split: option.splits json.splits)
  have generic: "isIsoDateForm r \<or>
      (\<exists>t isoText. dateParse E (trim s) = Some t \<and> (utcYear t < 0 \<or> 9999 < utcYear t) \<and>
         toISOString (Some t) = Inr isoText \<and> r = take 10 isoText)"
    if g: "genericDate E (trim s) = Inr (Some r)"
  proof -
    from g obtain t isoText where t: "dateParse E (trim s) = Some t"
      "toISOString (Some t) = Inr isoText" "r = take 10 isoText"
      by (auto simp: genericDate_def bindE_def Let_def split: if_splits sum.splits)
    show ?thesis
    proof (cases "0 \<le> utcYear t \<and> utcYear t \<le> 9999")
      case True
      with t iso_prefix_form [of t isoText] show ?thesis by simp
    next
      case False
      with t show ?thesis by auto
    qed
  qed
  from assms(3) v have ne: "s \<noteq> []" "trim s \<noteq> []"
    by (auto simp: normalizeDate_def Let_def split: if_splits)
  show ?thesis
  proof (cases "isIsoDateForm (trim s)")
    case True
    with assms(3) v ne have "r = trim s"
      by (simp add: normalizeDate_def Let_def)
    with True show ?thesis by simp
  next
    case notIso: False
    show ?thesis
    proof (cases "matchShort (trim s)")
      case None
      with assms(3) v ne notIso have "genericDate E (trim s) = Inr (Some r)"
        by (simp add: normalizeDate_def Let_def)
      with generic show ?thesis by (auto simp: v)
    next
      case (Some p)
      obtain dd mon where p: "p = (dd, mon)" by (cases p)
      define month where "month =
        (case map_of MONTH_SHORT (toLowerCase mon) of
           Some m \<Rightarrow> Some m
         | None \<Rightarrow> map_of MONTH_SHORT (toLowerCase (take 3 mon)))"
      from assms(3) v ne notIso Some p
      have n: "(case month of
                  Some m \<Rightarrow> Inr (Some (showInt (getFullYear (now E)) @ lit ''-'' @ m @
                                        lit ''-'' @ padStart 2 0x30 dd))
                | None \<Rightarrow> genericDate E (trim s)) = Inr (Some r)"
        by (simp add: normalizeDate_def Let_def month_def)
      show ?thesis
      proof (cases month)
        case None
        with n have "genericDate E (trim s) = Inr (Some r)" by simp
        with generic show ?thesis by (auto simp: v)
      next
        case (Some m)
        with n have r: "r = showInt (getFullYear (now E)) @ lit ''-'' @ m @ lit ''-'' @
                            padStart 2 0x30 dd" by simp
        from Some obtain k where "map_of MONTH_SHORT k = Some m"
          by (auto simp: month_def split: option.splits)
        with short_date_form [OF assms(1,2), of "trim s" dd mon k m] \<open>matchShort (trim s) = Some p\<close> p r
        show ?thesis by simp
      qed
    qed
  qed
qed

lemma normalizeDate_not_string:
  assumes "\<forall>s. v \<noteq> Some (JStr s)"
  shows "normalizeDate E v = Inr None"
  using assms by (auto simp: normalizeDate_def split: option.splits json.splits)

lemma normalizeDate_blank:
  assumes "trim s = []"
  shows "normalizeDate E (Some (JStr s)) = Inr None"
  using assms by (simp add: normalizeDate_def Let_def)

text \<open>
  What holds of \<open>normalizeDate\<close> on every input: it never raises; it returns the
  sentinel for every value that is not a string and for every empty or blank string; and,
  the calendar year of the clock having four digits, a result that is not of the form
  \<open>YYYY-MM-DD\<close> can only come from the last branch, as the first ten units of the ISO
  rendering of an instant whose UTC year lies outside 0 to 9999.
\<close>

lemma normalizeDate_total:
  "(\<exists>res. normalizeDate E v = Inr res)
   \<and> ((\<forall>s. v \<noteq> Some (JStr s)) \<longrightarrow> normalizeDate E v = Inr None)
   \<and> (v = Some (JStr s) \<and> trim s = [] \<longrightarrow> normalizeDate E v = Inr None)
   \<and> (1000 \<le> getFullYear (now E) \<and> getFullYear (now E) \<le> 9999 \<and>
        normalizeDate E v = Inr (Some r) \<longrightarrow>
          isIsoDateForm r \<or>
          (\<exists>s t isoText. v = Some (JStr s) \<and> dateParse E (trim s) = Some t \<and>
                 (utcYear t < 0 \<or> 9999 < utcYear t) \<and>
                 toISOString (Some t) = Inr isoText \<and> r = take 10 isoText))"
  using normalizeDate_returns [of E v] normalizeDate_not_string [of v E]
        normalizeDate_blank [of s E] normalizeDate_form [of E v r]
  by blast

lemma normalizeDate_total_example:
  "normalizeDate downEnv (Some JNull) = Inr None
   \<and> normalizeDate downEnv (Some (JStr (lit ''   ''))) = Inr None
   \<and> normalizeDate downEnv (Some (JStr (lit '' 5-apr ''))) = Inr (Some (lit ''2024-04-05''))
   \<and> isIsoDateForm (lit ''2024-04-05'')"
proof -
  have a: "\<forall>s. Some JNull \<noteq> Some (JStr s)" by simp
  have b: "trim (lit ''   '') = []"
    by (simp add: string_eval)
  have c: "normalizeDate downEnv (Some (JStr (lit '' 5-apr ''))) = Inr (Some (lit ''2024-04-05''))"
    by (simp add: row_eval string_eval downEnv_simps)
  have y: "1000 \<le> getFullYear (now downEnv) \<and> getFullYear (now downEnv) \<le> 9999"
    by (simp add: downEnv_simps)
  have d: "dateParse downEnv (trim (lit '' 5-apr '')) = None"
    by (simp add: string_eval downEnv_simps)
  from normalizeDate_total [of downEnv "Some JNull"]
       normalizeDate_total [of downEnv "Some (JStr (lit ''   ''))" "lit ''   ''"]
       normalizeDate_total [of downEnv "Some (JStr (lit '' 5-apr ''))" _ "lit ''2024-04-05''"]
       a b c y d
  show ?thesis by auto
qed

text \<open>
  Claim C2. The claim fails on the code at a date text of the year 10000 in the expanded
  ISO format, which every ECMAScript date parser accepts: \<open>normalizeDate\<close> returns the
  first ten units of the ISO rendering, \<open>+010000-01\<close>, which is neither the sentinel nor
  a string of the form \<open>YYYY-MM-DD\<close>, while its other two branches return such a
  string.
\<close>

theorem normalizeDate_expanded_year_result:
  "normalizeDate downEnv (Some (JStr (lit ''+010000-01-01T00:00:00.000Z'')))
     = Inr (Some (lit ''+010000-01''))
   \<and> \<not> isIsoDateForm (lit ''+010000-01'')"
proof -
  have y: "utcYear 253402300800000 = 10000" "utcMonth 253402300800000 = 1"
          "utcDate 253402300800000 = 1" "msOfDay 253402300800000 = 0"
    by (simp_all add: utcYear_def utcMonth_def utcDate_def msOfDay_def yearOfDay_def
                      monthOfYear_def dayOfMonth_def monthFromMarch_def dayOfYear_def
                      yearOfEra_def dayOfEra_def)
  have t: "toISOString (Some 253402300800000) = Inr (lit ''+010000-01-01T00:00:00.000Z'')"
    by (simp add: toISOString_def y isoYear_def fixedDigits_2 fixedDigits_3 fixedDigits_6
                  digitChar_def lit_def)
  have g: "genericDate downEnv (lit ''+010000-01-01T00:00:00.000Z'') = Inr (Some (lit ''+010000-01''))"
    by (simp add: genericDate_def downEnv_simps t bindE_def) (simp add: lit_def)
  have tr: "trim (lit ''+010000-01-01T00:00:00.000Z'') = lit ''+010000-01-01T00:00:00.000Z''"
    by (simp add: string_eval)
  have f: "\<not> isIsoDateForm (lit ''+010000-01-01T00:00:00.000Z'')"
          "matchShort (lit ''+010000-01-01T00:00:00.000Z'') = None"
          "lit ''+010000-01-01T00:00:00.000Z'' \<noteq> []"
    by (simp_all add: isIsoDateForm_def matchShort_def lit_def)
  have n: "normalizeDate downEnv (Some (JStr (lit ''+010000-01-01T00:00:00.000Z'')))
             = Inr (Some (lit ''+010000-01''))"
    by (simp add: normalizeDate_def Let_def tr f g)
  have "\<not> isIsoDateForm (lit ''+010000-01'')"
    by (simp add: isIsoDateForm_def lit_def isDigit_def)
  with n show ?thesis by simp
qed

section \<open>Properties of the message composer\<close>

lemma filterE_all_false:
  assumes "\<forall>x \<in> set xs. p x = Inr False"
  shows "filterE p xs = Inr []"
  using assms by (induction xs) simp_all

text \<open>
  Claim C8. When the payload has a row array and every row fails the closing-today filter
  (in particular when the array is empty), the message is the header for the reference
  date followed by the line \<open>No IPOs closing today.\<close>; and a message that is composed is
  never the empty string.
\<close>

theorem formatMessage_no_rows_closing:
  "(rowArray data = Some rows \<and> (\<forall>row \<in> set rows. isClosingToday E row (getTodayIso E) = Inr False) \<longrightarrow>
      formatMessage E data =
        Inr ([0xD83D, 0xDCC8, 0x20] @ lit ''IPOs Closing Today ('' @ getTodayIso E @ lit '')'' @
             [0x0A, 0x0A] @ lit ''No IPOs closing today.''))
   \<and> (rowArray data = Some [] \<longrightarrow>
      formatMessage E data =
        Inr ([0xD83D, 0xDCC8, 0x20] @ lit ''IPOs Closing Today ('' @ getTodayIso E @ lit '')'' @
             [0x0A, 0x0A] @ lit ''No IPOs closing today.''))
   \<and> (formatMessage E data = Inr message \<longrightarrow> message \<noteq> [])"
proof (intro conjI impI)
  assume a: "rowArray data = Some rows \<and>
             (\<forall>row \<in> set rows. isClosingToday E row (getTodayIso E) = Inr False)"
  then have "filterE (\<lambda>row. isClosingToday E row (getTodayIso E)) rows = Inr []"
    by (intro filterE_all_false) simp
  with a show "formatMessage E data =
        Inr ([0xD83D, 0xDCC8, 0x20] @ lit ''IPOs Closing Today ('' @ getTodayIso E @ lit '')'' @
             [0x0A, 0x0A] @ lit ''No IPOs closing today.'')"
    by (simp add: formatMessage_def bindE_def closingHeader_def trim_def)
next
  assume "rowArray data = Some []"
  then show "formatMessage E data =
        Inr ([0xD83D, 0xDCC8, 0x20] @ lit ''IPOs Closing Today ('' @ getTodayIso E @ lit '')'' @
             [0x0A, 0x0A] @ lit ''No IPOs closing today.'')"
    by (simp add: formatMessage_def bindE_def closingHeader_def trim_def)
next
  assume "formatMessage E data = Inr message"
  then show "message \<noteq> []"
    by (auto simp: formatMessage_def bindE_def closingHeader_def Let_def
             split: option.splits sum.splits if_splits)
qed

theorem formatMessage_no_rows_closing_witness:
  "formatMessage (downEnv)
     (JObj [(lit ''reportTableData'', JArr [JObj [(lit ''Close'', JStr (lit ''06-Apr''))]])])
     = Inr ([0xD83D, 0xDCC8, 0x20] @ lit ''IPOs Closing Today (2024-04-05)'' @
            [0x0A, 0x0A] @ lit ''No IPOs closing today.'')
   \<and> formatMessage (downEnv) (JObj [(lit ''reportTableData'', JArr [])])
     = Inr ([0xD83D, 0xDCC8, 0x20] @ lit ''IPOs Closing Today (2024-04-05)'' @
            [0x0A, 0x0A] @ lit ''No IPOs closing today.'')
   \<and> [0xD83D, 0xDCC8, 0x20] @ lit ''IPOs Closing Today (2024-04-05)'' @
            [0x0A, 0x0A] @ lit ''No IPOs closing today.'' \<noteq> []"
proof -
  let ?E = "downEnv"
  let ?row = "JObj [(lit ''Close'', JStr (lit ''06-Apr''))]"
  let ?d1 = "JObj [(lit ''reportTableData'', JArr [?row])]"
  let ?d2 = "JObj [(lit ''reportTableData'', JArr [])]"
  have today: "getTodayIso ?E = lit ''2024-04-05''"
    by (simp add: getTodayIso_def downEnv_simps)
  have r1: "rowArray ?d1 = Some [?row]" and r2: "rowArray ?d2 = Some []"
    by (simp_all add: rowArray_def getProp_def truthy_def)
  have "getCloseDateIso ?E ?row = Inr (Some (lit ''2024-04-06''))"
    by (simp add: row_eval markup_eval string_eval downEnv_simps)
  then have f: "\<forall>row \<in> set [?row]. isClosingToday ?E row (getTodayIso ?E) = Inr False"
    by (simp add: isClosingToday_def bindE_def today lit_def)
  from formatMessage_no_rows_closing [of ?d1 "[?row]" ?E] r1 f
  have m1: "formatMessage ?E ?d1 =
        Inr ([0xD83D, 0xDCC8, 0x20] @ lit ''IPOs Closing Today ('' @ getTodayIso ?E @ lit '')'' @
             [0x0A, 0x0A] @ lit ''No IPOs closing today.'')"
    by blast
  from formatMessage_no_rows_closing [of ?d2 "[]" ?E] r2
  have m2: "formatMessage ?E ?d2 =
        Inr ([0xD83D, 0xDCC8, 0x20] @ lit ''IPOs Closing Today ('' @ getTodayIso ?E @ lit '')'' @
             [0x0A, 0x0A] @ lit ''No IPOs closing today.'')"
    by blast
  from m1 m2 show ?thesis
    by (simp add: today lit_def)
qed

text \<open>
  Claim C9. A payload without a valid row sequence (a falsy payload, or one whose
  \<open>reportTableData\<close> is missing or not an array) does not make the composer fail: the
  message is the fallback header followed by \<open>JSON.stringify(data, null, 2)\<close>.
\<close>

theorem formatMessage_fallback_dump:
  assumes "\<not> truthy (Some data) \<or>
           (\<forall>rows. getProp data (lit ''reportTableData'') \<noteq> Inr (Some (JArr rows)))"
  shows "formatMessage E data =
           Inr ([0xD83D, 0xDCC8, 0x20] @ lit ''IPO GMP Update'' @ [0x0A, 0x0A] @
                JSON_stringify 2 data)"
proof -
  from assms have "rowArray data = None"
    by (auto simp: rowArray_def split: sum.splits option.splits json.splits)
  then show ?thesis
    by (simp add: formatMessage_def)
qed

theorem formatMessage_fallback_dump_witness:
  \<open>formatMessage (downEnv) (JObj [(lit ''error'', JStr (lit ''down'')), (lit ''rows'', JArr [])])
     = Inr ([0xD83D, 0xDCC8, 0x20] @ lit ''IPO GMP Update'' @ [0x0A, 0x0A] @
            lit ''{'' @ [0x0A] @ lit ''  "error": "down",'' @ [0x0A] @ lit ''  "rows": []'' @
            [0x0A] @ lit ''}'')
   \<and> formatMessage (downEnv) JNull
     = Inr ([0xD83D, 0xDCC8, 0x20] @ lit ''IPO GMP Update'' @ [0x0A, 0x0A] @ lit ''null'')\<close>
proof -
  let ?E = "downEnv"
  let ?d = "JObj [(lit ''error'', JStr (lit ''down'')), (lit ''rows'', JArr [])]"
  have h1: "\<not> truthy (Some ?d) \<or>
            (\<forall>rows. getProp ?d (lit ''reportTableData'') \<noteq> Inr (Some (JArr rows)))"
    by (simp add: getProp_def lit_def)
  have h2: "\<not> truthy (Some JNull) \<or>
            (\<forall>rows. getProp JNull (lit ''reportTableData'') \<noteq> Inr (Some (JArr rows)))"
    by (simp add: truthy_def)
  have s1: \<open>JSON_stringify 2 ?d =
            lit ''{'' @ [0x0A] @ lit ''  "error": "down",'' @ [0x0A] @ lit ''  "rows": []'' @
            [0x0A] @ lit ''}''\<close>
    by (simp add: JSON_stringify_def gap2 quoteJSON_def lit_def isHighSurrogate_def
                  isLowSurrogate_def)
  have s2: "JSON_stringify 2 JNull = lit ''null''"
    by (simp add: JSON_stringify_def)
  from formatMessage_fallback_dump [OF h1, of ?E] formatMessage_fallback_dump [OF h2, of ?E] s1 s2
  show ?thesis by simp
qed

section \<open>Properties of the notifier\<close>

text \<open>
  On every parsed body other than \<open>null\<close>, and whatever the HTTP status of the answer,
  the notifier returns the parsed body when its \<open>ok\<close> flag is truthy and otherwise
  raises its own error, whose message carries the JSON rendering of the parsed body.
\<close>

lemma sendTelegram_flag_decides:
  assumes "httpPost E n (telegramUrl cfg) (telegramBody cfg text)
             = Inr \<lparr>res_status = st, res_json = Inr j\<rparr>"
    and "j \<noteq> JNull"
  shows "snd (sendTelegram E cfg n text) =
           (if truthy (okFlag j) then Inr j
            else Inl (Error (lit ''Telegram send failed: '' @ JSON_stringify 0 j)))"
    and "snd (h_sendTelegram E cfg n text) =
           (if truthy (okFlag j) then Inr j
            else Inl (Error (lit ''Telegram send failed: '' @ JSON_stringify 0 j @ lit '' '')))"
  using assms
  by (cases j;
      simp add: sendTelegram_def h_sendTelegram_def Let_def bindE_def getProp_def okFlag_def
                truthy_def)+

lemma envWithAnswer_simps:
  "httpPost (envWithAnswer res) = (\<lambda>n url b. Inr res)"
  "engineMessage (envWithAnswer res) = (\<lambda>e. lit ''engine error'')"
  by (simp_all add: envWithAnswer_def sampleEnv_def)

lemma sendTelegram_flag_decides_example:
  \<open>snd (sendTelegram
          (envWithAnswer \<lparr>res_status = 200, res_json = Inr (JObj [(lit ''ok'', JBool False)])\<rparr>)
          sampleConfig 0 (lit ''hi''))
     = Inl (Error (lit ''Telegram send failed: {"ok":false}''))
   \<and> snd (sendTelegram
          (envWithAnswer \<lparr>res_status = 500, res_json = Inr (JObj [(lit ''ok'', JBool True)])\<rparr>)
          sampleConfig 0 (lit ''hi''))
     = Inr (JObj [(lit ''ok'', JBool True)])
   \<and> snd (sendTelegram (envWithAnswer \<lparr>res_status = 200, res_json = Inr (JBool False)\<rparr>)
          sampleConfig 0 (lit ''hi''))
     = Inl (Error (lit ''Telegram send failed: false''))\<close>
proof -
  let ?no = "JObj [(lit ''ok'', JBool False)]"
  let ?yes = "JObj [(lit ''ok'', JBool True)]"
  have s: \<open>JSON_stringify 0 ?no = lit ''{"ok":false}''\<close>
          \<open>JSON_stringify 0 (JBool False) = lit ''false''\<close>
    by (simp_all add: JSON_stringify_def quoteJSON_def lit_def isHighSurrogate_def
                      isLowSurrogate_def)
  have f: "\<not> truthy (okFlag ?no)" "truthy (okFlag ?yes)" "\<not> truthy (okFlag (JBool False))"
    by (simp_all add: okFlag_def truthy_def)
  have p: "httpPost (envWithAnswer res) 0 (telegramUrl sampleConfig)
             (telegramBody sampleConfig (lit ''hi'')) = Inr res" for res
    by (simp add: envWithAnswer_simps)
  from sendTelegram_flag_decides(1) [OF p [of "\<lparr>res_status = 200, res_json = Inr ?no\<rparr>"]]
       sendTelegram_flag_decides(1) [OF p [of "\<lparr>res_status = 500, res_json = Inr ?yes\<rparr>"]]
       sendTelegram_flag_decides(1)
         [OF p [of "\<lparr>res_status = 200, res_json = Inr (JBool False)\<rparr>"]]
       s f
  show ?thesis
    by (simp add: lit_def)
qed

text \<open>
  Claim C6. The claim fails on the code at a provider response whose body is the JSON
  value \<open>null\<close>: the parsed response has no truthy flag, yet in both entry points the
  error raised is the \<open>TypeError\<close> of reading \<open>ok\<close> from \<open>null\<close>, not the
  notifier's error carrying the response body, which every other body without a truthy
  flag gets.
\<close>

theorem sendTelegram_null_body:
  "\<not> truthy (okFlag JNull)
   \<and> snd (sendTelegram (envWithAnswer \<lparr>res_status = 200, res_json = Inr JNull\<rparr>)
            sampleConfig 0 (lit ''hi''))
       = Inl (NullPropertyRead (lit ''ok''))
   \<and> snd (h_sendTelegram (envWithAnswer \<lparr>res_status = 200, res_json = Inr JNull\<rparr>)
            sampleConfig 0 (lit ''hi''))
       = Inl (NullPropertyRead (lit ''ok''))
   \<and> snd (sendTelegram (envWithAnswer \<lparr>res_status = 200, res_json = Inr JNull\<rparr>)
            sampleConfig 0 (lit ''hi''))
       \<noteq> Inl (Error (lit ''Telegram send failed: '' @ JSON_stringify 0 JNull))"
  by (simp add: okFlag_def truthy_def sendTelegram_def h_sendTelegram_def Let_def bindE_def
                getProp_def envWithAnswer_simps)

section \<open>Properties of the entry points\<close>

lemma orEmpty_id: "orEmpty x = x"
  by (simp add: orEmpty_def)

lemma bindE_Inr: "bindE m (\<lambda>x. Inr x) = m"
  by (cases m) (simp_all add: bindE_def)

lemma h_decodeHtmlEntities_eq: "h_decodeHtmlEntities v = decodeHtmlEntities v"
  by (simp add: h_decodeHtmlEntities_def decodeHtmlEntities_def orEmpty_id bindE_Inr
           cong: option.case_cong json.case_cong)

lemma posts_append: "posts (xs @ ys) = posts xs @ posts ys"
  by (simp add: posts_def)

lemma posts_fetchGmp: "posts (fst (fetchGmp E cfg)) = []"
  by (simp add: fetchGmp_def posts_def split: sum.splits)

lemma posts_h_fetchGmp: "posts (fst (h_fetchGmp E cfg)) = []"
  by (simp add: h_fetchGmp_def posts_def Let_def)

lemma fst_sendTelegram: "fst (sendTelegram E cfg n t) = POST (telegramUrl cfg) (telegramBody cfg t)"
  by (simp add: sendTelegram_def Let_def)

lemma fst_h_sendTelegram: "fst (h_sendTelegram E cfg n t) = fst (sendTelegram E cfg n t)"
  by (simp add: sendTelegram_def h_sendTelegram_def Let_def)

lemma isl_h_sendTelegram: "isl (snd (h_sendTelegram E cfg n t)) = isl (snd (sendTelegram E cfg n t))"
  by (simp add: sendTelegram_def h_sendTelegram_def Let_def bindE_def split: sum.splits)

lemma main_requests:
  "requests (main E cfg) =
     fst (mainTry E cfg) @
     (case snd (mainTry E cfg) of
        Inl err \<Rightarrow> [POST (telegramUrl cfg)
                       (telegramBody cfg ([0x26A0, 0xFE0F] @ lit '' GMP Bot error: '' @ messageOf E err))]
      | Inr sent \<Rightarrow> [])"
  by (cases "mainTry E cfg")
     (simp add: main_def sendTelegram_def Let_def split: sum.splits prod.splits)

lemma main_exitCode: "exitCode (main E cfg) = (if isl (snd (mainTry E cfg)) then 1 else 0)"
  by (cases "mainTry E cfg")
     (simp add: main_def sendTelegram_def Let_def split: sum.splits prod.splits)

lemma tries_agree:
  assumes "snd (fetchGmp E cfg) = snd (h_fetchGmp E cfg)"
  shows "posts (fst (handlerTry E cfg)) = posts (fst (mainTry E cfg))
       \<and> isl (snd (handlerTry E cfg)) = isl (snd (mainTry E cfg))"
proof -
  obtain r1 d where f: "fetchGmp E cfg = (r1, d)" by (cases "fetchGmp E cfg")
  obtain r2 d' where h: "h_fetchGmp E cfg = (r2, d')" by (cases "h_fetchGmp E cfg")
  from assms f h have d: "d' = d" by simp
  from posts_fetchGmp [of E cfg] f have p1: "posts r1 = []" by simp
  from posts_h_fetchGmp [of E cfg] h have p2: "posts r2 = []" by simp
  show ?thesis
  proof (cases d)
    case (Inl e)
    with f h d p1 p2 show ?thesis by (simp add: mainTry_def handlerTry_def)
  next
    case data: (Inr payload)
    show ?thesis
    proof (cases "formatMessage E payload")
      case (Inl e)
      with data f h d p1 p2 show ?thesis by (simp add: mainTry_def handlerTry_def)
    next
      case (Inr message)
      obtain rq a where s1: "sendTelegram E cfg 0 message = (rq, a)"
        by (cases "sendTelegram E cfg 0 message")
      obtain rq' a' where s2: "h_sendTelegram E cfg 0 message = (rq', a')"
        by (cases "h_sendTelegram E cfg 0 message")
      from fst_h_sendTelegram [of E cfg 0 message] s1 s2 have rq: "rq' = rq" by simp
      from isl_h_sendTelegram [of E cfg 0 message] s1 s2 have a: "isl a' = isl a" by simp
      from Inr data f h d p1 p2 s1 s2 rq a show ?thesis
        by (simp add: mainTry_def handlerTry_def posts_append)
    qed
  qed
qed

lemma handler_requests:
  assumes "loadConfig pe = Some cfg"
  shows "h_requests (handler E pe) = fst (handlerTry E cfg)"
    and "statusCode (handler E pe) = (if isl (snd (handlerTry E cfg)) then 500 else 200)"
  using assms
  by (cases "handlerTry E cfg"; simp add: handler_def split: sum.splits)+

text \<open>
  Claim C5, as amended. In the standalone script, when the sequence fetch, compose, send
  raises, \<open>main\<close> makes exactly one more call, a notification of the error text to the
  chat of the configuration, and exits with status 1 whatever the answer to that call; when
  the sequence succeeds it makes no further call. The request handler makes no further
  call on a failure: it answers with status 500 and the error text.
\<close>

theorem main_one_error_notification:
  "(mainTry E cfg = (reqs, Inl err) \<longrightarrow>
      main E cfg =
        \<lparr>requests = reqs @
           [POST (telegramUrl cfg)
              (JSON_stringify 0
                 (JObj [(lit ''chat_id'', JStr (CHAT_ID cfg)),
                        (lit ''text'',
                         JStr ([0x26A0, 0xFE0F] @ lit '' GMP Bot error: '' @ messageOf E err)),
                        (lit ''disable_web_page_preview'', JBool True)]))],
         exitCode = 1\<rparr>)
   \<and> (mainTry E cfg = (reqs, Inr sent) \<longrightarrow> main E cfg = \<lparr>requests = reqs, exitCode = 0\<rparr>)
   \<and> (loadConfig pe = Some cfg \<and> handlerTry E cfg = (reqs, Inl err) \<longrightarrow>
        handler E pe =
          \<lparr>h_requests = reqs, statusCode = 500,
           body = JObj [(lit ''error'', JStr (messageOf E err))]\<rparr>)"
  by (simp add: main_def sendTelegram_def telegramBody_def Let_def handler_def)

subsection \<open>A run against a failing data endpoint\<close>

lemmas url_eval =
  stripTrailingSlash_def plainURL_def searchParamsToString_def formEncode_def
  formEncodeByte_def utf8_def isHighSurrogate_def isLowSurrogate_def upperHexDigit_def
  getFiscalYearLabel_def buildCacheBuster_def

lemma sample_loadConfig: "loadConfig sampleProcessEnv = Some sampleConfig"
  by (simp add: loadConfig_def sampleProcessEnv_def sampleConfig_def lit_def)

lemma sample_buildApiUrl:
  "buildApiUrl downEnv sampleConfig =
     Inr (lit ''https://example.com/api/331/1/4/2024/2024-25/0/ipo?search=&v=05-0907'')"
  by (simp add: buildApiUrl_def sampleConfig_def downEnv_simps url_eval string_eval)

lemma sample_h_buildApiUrl:
  "h_buildApiUrl downEnv sampleConfig =
     lit ''https://example.com/api/331/1/4/2024/2024-25/0/ipo?search=&v=05-0907''"
  by (simp add: h_buildApiUrl_def sampleConfig_def downEnv_simps url_eval string_eval)

lemma sample_showInt_500: "showInt 500 = lit ''500''"
  by (simp add: string_eval)

lemma sample_mainTry:
  "mainTry downEnv sampleConfig =
     ([GET (lit ''https://example.com/api/331/1/4/2024/2024-25/0/ipo?search=&v=05-0907'')],
      Inl (Error (lit ''API error '' @ lit ''500'')))"
  by (simp add: mainTry_def fetchGmp_def sample_buildApiUrl downEnv_simps serverError_def
                bindE_def resOk_def sample_showInt_500)

lemma sample_handlerTry:
  "handlerTry downEnv sampleConfig =
     ([GET (lit ''https://example.com/api/331/1/4/2024/2024-25/0/ipo?search=&v=05-0907'')],
      Inl (Error (lit ''API error '' @ lit ''500'')))"
  by (simp add: handlerTry_def h_fetchGmp_def sample_h_buildApiUrl downEnv_simps serverError_def
                bindE_def resOk_def sample_showInt_500)

theorem main_one_error_notification_witness:
  "main downEnv sampleConfig =
     \<lparr>requests =
        [GET (lit ''https://example.com/api/331/1/4/2024/2024-25/0/ipo?search=&v=05-0907''),
         POST (lit ''https://api.telegram.org/botTOKEN/sendMessage'')
           (JSON_stringify 0
              (JObj [(lit ''chat_id'', JStr (lit ''42'')),
                     (lit ''text'', JStr ([0x26A0, 0xFE0F] @ lit '' GMP Bot error: API error 500'')),
                     (lit ''disable_web_page_preview'', JBool True)]))],
      exitCode = 1\<rparr>
   \<and> handler downEnv sampleProcessEnv =
     \<lparr>h_requests =
        [GET (lit ''https://example.com/api/331/1/4/2024/2024-25/0/ipo?search=&v=05-0907'')],
      statusCode = 500,
      body = JObj [(lit ''error'', JStr (lit ''API error 500''))]\<rparr>"
proof -
  have m: "messageOf downEnv (Error (lit ''API error '' @ lit ''500'')) = lit ''API error 500''"
    by (simp add: messageOf_def lit_def)
  have t: "telegramUrl sampleConfig = lit ''https://api.telegram.org/botTOKEN/sendMessage''"
    by (simp add: telegramUrl_def sampleConfig_def lit_def)
  have c: "CHAT_ID sampleConfig = lit ''42''"
    by (simp add: sampleConfig_def)
  have a: "[0x26A0, 0xFE0F] @ lit '' GMP Bot error: '' @ lit ''API error 500''
             = [0x26A0, 0xFE0F] @ lit '' GMP Bot error: API error 500''"
    by (simp add: lit_def)
  from main_one_error_notification
         [of downEnv sampleConfig _ "Error (lit ''API error '' @ lit ''500'')" _ sampleProcessEnv]
       sample_mainTry sample_handlerTry sample_loadConfig
  show ?thesis
    by (simp only: m t c a) simp
qed

text \<open>
  Claim C5 as stated fails for the request handler: against a data endpoint that answers
  with status 500 the handler fails (it answers 500) and has made no notification call.
\<close>

theorem handler_no_error_notification_counterexample:
  "statusCode (handler downEnv sampleProcessEnv) = 500
   \<and> posts (h_requests (handler downEnv sampleProcessEnv)) = []"
  by (simp add: handler_def sample_loadConfig sample_handlerTry posts_def)

text \<open>
  Claim C1, as amended. With an incomplete configuration neither entry point makes a
  network call, and both report failure. For a base URL and a report id without
  surrounding white space, the handler requests the path that the script hands to the URL
  parser, followed by the same query. When the fetch step delivers the same result to both
  (the same payload or the same failure), the two entry points succeed or fail together
  and make the same notification calls with the same message, except that on a failure
  the standalone script makes one more notification call, carrying the text of the error
  its sequence raised, which the handler does not make.
\<close>

theorem entry_points_agree_up_to_error_notification:
  "(loadConfig pe = None \<longrightarrow>
      gmp_script E pe = \<lparr>requests = [], exitCode = 1\<rparr> \<and>
      h_requests (handler E pe) = [] \<and> statusCode (handler E pe) = 500)
   \<and> (loadConfig pe = Some cfg \<and> snd (fetchGmp E cfg) = snd (h_fetchGmp E cfg) \<longrightarrow>
      (exitCode (gmp_script E pe) = 0 \<longleftrightarrow> statusCode (handler E pe) = 200) \<and>
      (statusCode (handler E pe) = 200 \<or> statusCode (handler E pe) = 500) \<and>
      (statusCode (handler E pe) = 200 \<longrightarrow>
         posts (requests (gmp_script E pe)) = posts (h_requests (handler E pe))) \<and>
      (statusCode (handler E pe) = 500 \<longrightarrow>
         (\<exists>err. snd (mainTry E cfg) = Inl err \<and>
            posts (requests (gmp_script E pe)) =
            posts (h_requests (handler E pe)) @
            [POST (telegramUrl cfg)
               (telegramBody cfg ([0x26A0, 0xFE0F] @ lit '' GMP Bot error: '' @ messageOf E err))])))
   \<and> (trim (API_URL cfg) = API_URL cfg \<and> trim (REPORT_ID cfg) = REPORT_ID cfg \<longrightarrow>
        (\<exists>path. buildApiUrl E cfg =
                  newURL E path [(lit ''search'', []), (lit ''v'', buildCacheBuster (now E))] \<and>
                h_buildApiUrl E cfg =
                  path @ lit ''?'' @
                  searchParamsToString [(lit ''search'', []), (lit ''v'', buildCacheBuster (now E))]))"
proof -
  have missing: "loadConfig pe = None \<longrightarrow>
      gmp_script E pe = \<lparr>requests = [], exitCode = 1\<rparr> \<and>
      h_requests (handler E pe) = [] \<and> statusCode (handler E pe) = 500"
    by (simp add: gmp_script_def handler_def)
  have loaded: "(exitCode (gmp_script E pe) = 0 \<longleftrightarrow> statusCode (handler E pe) = 200) \<and>
      (statusCode (handler E pe) = 200 \<or> statusCode (handler E pe) = 500) \<and>
      (statusCode (handler E pe) = 200 \<longrightarrow>
         posts (requests (gmp_script E pe)) = posts (h_requests (handler E pe))) \<and>
      (statusCode (handler E pe) = 500 \<longrightarrow>
         (\<exists>err. snd (mainTry E cfg) = Inl err \<and>
            posts (requests (gmp_script E pe)) =
            posts (h_requests (handler E pe)) @
            [POST (telegramUrl cfg)
               (telegramBody cfg ([0x26A0, 0xFE0F] @ lit '' GMP Bot error: '' @ messageOf E err))]))"
    if cfg: "loadConfig pe = Some cfg" and same: "snd (fetchGmp E cfg) = snd (h_fetchGmp E cfg)"
  proof -
    note agree = tries_agree [OF same]
    note h = handler_requests [OF cfg, of E]
    have g: "gmp_script E pe = main E cfg"
      using cfg by (simp add: gmp_script_def)
    have one: "exitCode (gmp_script E pe) = 0 \<longleftrightarrow> statusCode (handler E pe) = 200"
      using agree h by (simp add: g main_exitCode)
    have two: "statusCode (handler E pe) = 200 \<or> statusCode (handler E pe) = 500"
      using h by simp
    have three: "posts (requests (gmp_script E pe)) = posts (h_requests (handler E pe))"
      if "statusCode (handler E pe) = 200"
    proof -
      from that h have "\<not> isl (snd (handlerTry E cfg))" by (simp split: if_splits)
      with agree have "\<not> isl (snd (mainTry E cfg))" by simp
      then obtain sent where "snd (mainTry E cfg) = Inr sent"
        by (cases "snd (mainTry E cfg)") simp_all
      with agree h show ?thesis
        by (simp add: g main_requests posts_append posts_def)
    qed
    have four: "\<exists>err. snd (mainTry E cfg) = Inl err \<and>
            posts (requests (gmp_script E pe)) =
            posts (h_requests (handler E pe)) @
            [POST (telegramUrl cfg)
               (telegramBody cfg ([0x26A0, 0xFE0F] @ lit '' GMP Bot error: '' @ messageOf E err))]"
      if "statusCode (handler E pe) = 500"
    proof -
      from that h have "isl (snd (handlerTry E cfg))" by (simp split: if_splits)
      with agree have "isl (snd (mainTry E cfg))" by simp
      then obtain err where err: "snd (mainTry E cfg) = Inl err"
        by (cases "snd (mainTry E cfg)") simp_all
      with agree h have "posts (requests (gmp_script E pe)) =
            posts (h_requests (handler E pe)) @
            [POST (telegramUrl cfg)
               (telegramBody cfg ([0x26A0, 0xFE0F] @ lit '' GMP Bot error: '' @ messageOf E err))]"
        by (simp add: g main_requests posts_append posts_def)
      with err show ?thesis by blast
    qed
    from one two three four show ?thesis by blast
  qed
  have url: "\<exists>path. buildApiUrl E cfg =
                  newURL E path [(lit ''search'', []), (lit ''v'', buildCacheBuster (now E))] \<and>
                h_buildApiUrl E cfg =
                  path @ lit ''?'' @
                  searchParamsToString [(lit ''search'', []), (lit ''v'', buildCacheBuster (now E))]"
    if "trim (API_URL cfg) = API_URL cfg" "trim (REPORT_ID cfg) = REPORT_ID cfg"
    using that by (simp add: buildApiUrl_def h_buildApiUrl_def Let_def)
  from missing loaded url show ?thesis by blast
qed

subsection \<open>A run that succeeds\<close>

lemma upEnv_simps:
  "now upEnv = \<lparr>getFullYear = 2024, getMonth = 3, getDate = 5, getHours = 9, getMinutes = 7\<rparr>"
  "todayKolkata upEnv = lit ''2024-04-05''"
  "httpGet upEnv = (\<lambda>url. Inr \<lparr>res_status = 200, res_json = Inr samplePayload\<rparr>)"
  "httpPost upEnv = (\<lambda>n url b. accepted)"
  "newURL upEnv = plainURL"
  by (simp_all add: upEnv_def sampleEnv_def)

lemma sample_formatIpoRow:
  "formatIpoRow (JObj [(lit ''Name'', JStr (lit ''<b>Foo</b>'')),
                       (lit ''Close'', JStr (lit ''05-Apr'')),
                       (lit ''~Srt_Close'', JStr (lit ''2024-04-05'')),
                       (lit ''GMP'', JStr (lit ''50''))])
   = Inr ([0x2022, 0x20] @ lit ''Foo'' @ [0x0A] @ lit ''  GMP: 50'' @ [0x0A] @
          lit ''  Price: -'' @ [0x0A] @ lit ''  Subscriptions: -'' @ [0x0A] @
          lit ''  GMP Range: -'' @ [0x0A] @ lit ''  Window: - '' @ [0x2013] @ lit '' 05-Apr'' @
          [0x0A] @ lit ''  Listing: -'' @ [0x0A] @ lit ''  Updated: -'' @ [0x0A] @
          lit ''  Action: Apply today before the window closes '' @ [0x2705])"
  by (simp add: formatIpoRow_def fieldOr_def getProp_def markup_eval string_eval)

lemma sample_isClosingToday:
  "isClosingToday upEnv (JObj [(lit ''Name'', JStr (lit ''<b>Foo</b>'')),
                               (lit ''Close'', JStr (lit ''05-Apr'')),
                               (lit ''~Srt_Close'', JStr (lit ''2024-04-05'')),
                               (lit ''GMP'', JStr (lit ''50''))]) (lit ''2024-04-05'')
   = Inr True"
  by (simp add: row_eval markup_eval string_eval)

lemma sample_formatMessage: "\<exists>message. formatMessage upEnv samplePayload = Inr message"
proof -
  have r: "rowArray samplePayload =
             Some [JObj [(lit ''Name'', JStr (lit ''<b>Foo</b>'')),
                         (lit ''Close'', JStr (lit ''05-Apr'')),
                         (lit ''~Srt_Close'', JStr (lit ''2024-04-05'')),
                         (lit ''GMP'', JStr (lit ''50''))]]"
    by (simp add: rowArray_def samplePayload_def getProp_def truthy_def)
  have t: "getTodayIso upEnv = lit ''2024-04-05''"
    by (simp add: getTodayIso_def upEnv_simps)
  show ?thesis
    by (simp add: formatMessage_def r t sample_isClosingToday sample_formatIpoRow bindE_def Let_def)
qed

lemma sample_up_fetch:
  "snd (fetchGmp upEnv sampleConfig) = Inr samplePayload"
  "snd (h_fetchGmp upEnv sampleConfig) = Inr samplePayload"
  by (simp_all add: fetchGmp_def h_fetchGmp_def upEnv_simps bindE_def resOk_def plainURL_def
                    buildApiUrl_def Let_def)

lemma sample_up_handlerTry: "\<not> isl (snd (handlerTry upEnv sampleConfig))"
proof -
  obtain r where f: "h_fetchGmp upEnv sampleConfig = (r, Inr samplePayload)"
    using sample_up_fetch(2) by (cases "h_fetchGmp upEnv sampleConfig") simp
  obtain message where m: "formatMessage upEnv samplePayload = Inr message"
    using sample_formatMessage by blast
  show ?thesis
    by (simp add: handlerTry_def f m h_sendTelegram_def Let_def upEnv_simps accepted_def bindE_def
                  getProp_def truthy_def)
qed

theorem entry_points_agree_up_to_error_notification_witness:
  "exitCode (gmp_script upEnv sampleProcessEnv) = 0
   \<and> statusCode (handler upEnv sampleProcessEnv) = 200
   \<and> posts (requests (gmp_script upEnv sampleProcessEnv))
       = posts (h_requests (handler upEnv sampleProcessEnv))
   \<and> exitCode (gmp_script downEnv sampleProcessEnv) \<noteq> 0
   \<and> statusCode (handler downEnv sampleProcessEnv) = 500
   \<and> posts (requests (gmp_script downEnv sampleProcessEnv)) =
       posts (h_requests (handler downEnv sampleProcessEnv)) @
       [POST (telegramUrl sampleConfig)
          (telegramBody sampleConfig
             ([0x26A0, 0xFE0F] @ lit '' GMP Bot error: '' @ lit ''API error '' @ lit ''500''))]
   \<and> (\<exists>path. buildApiUrl downEnv sampleConfig =
                newURL downEnv path
                  [(lit ''search'', []), (lit ''v'', buildCacheBuster (now downEnv))] \<and>
              h_buildApiUrl downEnv sampleConfig =
                path @ lit ''?'' @
                searchParamsToString
                  [(lit ''search'', []), (lit ''v'', buildCacheBuster (now downEnv))])"
proof -
  have up: "statusCode (handler upEnv sampleProcessEnv) = 200"
    using handler_requests(2) [OF sample_loadConfig, of upEnv] sample_up_handlerTry by simp
  have down: "statusCode (handler downEnv sampleProcessEnv) = 500"
    using handler_requests(2) [OF sample_loadConfig, of downEnv] sample_handlerTry by simp
  have same_up: "snd (fetchGmp upEnv sampleConfig) = snd (h_fetchGmp upEnv sampleConfig)"
    by (simp add: sample_up_fetch)
  have same_down: "snd (fetchGmp downEnv sampleConfig) = snd (h_fetchGmp downEnv sampleConfig)"
    by (simp add: fetchGmp_def h_fetchGmp_def sample_buildApiUrl sample_h_buildApiUrl Let_def)
  have plain: "trim (API_URL sampleConfig) = API_URL sampleConfig"
              "trim (REPORT_ID sampleConfig) = REPORT_ID sampleConfig"
    by (simp_all add: sampleConfig_def string_eval)
  have err: "snd (mainTry downEnv sampleConfig) = Inl (Error (lit ''API error '' @ lit ''500''))"
    by (simp add: sample_mainTry)
  have msg: "messageOf downEnv (Error (lit ''API error '' @ lit ''500''))
               = lit ''API error '' @ lit ''500''"
    by (simp add: messageOf_def)
  note upT = entry_points_agree_up_to_error_notification [of sampleProcessEnv upEnv sampleConfig]
  note downT = entry_points_agree_up_to_error_notification [of sampleProcessEnv downEnv sampleConfig]
  from upT sample_loadConfig same_up up
  have a: "exitCode (gmp_script upEnv sampleProcessEnv) = 0"
          "posts (requests (gmp_script upEnv sampleProcessEnv))
             = posts (h_requests (handler upEnv sampleProcessEnv))"
    by simp_all
  from downT sample_loadConfig same_down down
  have b: "exitCode (gmp_script downEnv sampleProcessEnv) \<noteq> 0" by simp
  from downT sample_loadConfig same_down down
  obtain e where e: "snd (mainTry downEnv sampleConfig) = Inl e"
    "posts (requests (gmp_script downEnv sampleProcessEnv)) =
       posts (h_requests (handler downEnv sampleProcessEnv)) @
       [POST (telegramUrl sampleConfig)
          (telegramBody sampleConfig
             ([0x26A0, 0xFE0F] @ lit '' GMP Bot error: '' @ messageOf downEnv e))]"
    by auto
  from e(1) err have "e = Error (lit ''API error '' @ lit ''500'')" by simp
  with e(2) msg have c: "posts (requests (gmp_script downEnv sampleProcessEnv)) =
       posts (h_requests (handler downEnv sampleProcessEnv)) @
       [POST (telegramUrl sampleConfig)
          (telegramBody sampleConfig
             ([0x26A0, 0xFE0F] @ lit '' GMP Bot error: '' @ lit ''API error '' @ lit ''500''))]"
    by simp
  from downT plain
  have d: "\<exists>path. buildApiUrl downEnv sampleConfig =
                newURL downEnv path
                  [(lit ''search'', []), (lit ''v'', buildCacheBuster (now downEnv))] \<and>
              h_buildApiUrl downEnv sampleConfig =
                path @ lit ''?'' @
                searchParamsToString
                  [(lit ''search'', []), (lit ''v'', buildCacheBuster (now downEnv))]"
    by blast
  from a b c d up down show ?thesis by blast
qed

text \<open>
  Claim C1 as stated fails: against a data endpoint that answers with status 500 the
  standalone script makes a notification call and the handler makes none; and when the
  provider refuses a message the two notifiers raise errors with different texts.
\<close>

theorem entry_points_differ_counterexample:
  "length (posts (requests (gmp_script downEnv sampleProcessEnv))) = 1
   \<and> length (posts (h_requests (handler downEnv sampleProcessEnv))) = 0
   \<and> snd (sendTelegram
            (envWithAnswer \<lparr>res_status = 200, res_json = Inr (JObj [(lit ''ok'', JBool False)])\<rparr>)
            sampleConfig 0 (lit ''hi''))
       \<noteq> snd (h_sendTelegram
            (envWithAnswer \<lparr>res_status = 200, res_json = Inr (JObj [(lit ''ok'', JBool False)])\<rparr>)
            sampleConfig 0 (lit ''hi''))"
  by (simp add: gmp_script_def handler_def sample_loadConfig sample_handlerTry main_requests
                sample_mainTry posts_def sendTelegram_def h_sendTelegram_def Let_def bindE_def
                envWithAnswer_simps getProp_def truthy_def lit_def)

end
